theory Spec2Isabelle
  imports Main "HOL-Library.Sublist" "HOL-Library.Char_ord" "HOL-Library.List_Lexorder"
begin

section \<open>Values, errors and strings\<close>

text \<open>
  The errors of \<^verbatim>\<open>util/errors.ts\<close> that the modelled code creates. A function
  that returns \<^verbatim>\<open>true | ValidationError\<close> is modelled with result type
  \<open>error option\<close>, where \<open>None\<close> is the value \<^verbatim>\<open>true\<close>; a function that
  returns a value or an error, or that throws, has result type \<open>error + 'a\<close>.
\<close>

datatype error = ValidationError string | ReplicaIsClosedError

text \<open>
  JavaScript values held in object properties. Numbers are modelled as \<open>int\<close>: every
  number the modelled code computes with (timestamps, \<^verbatim>\<open>now\<close>, local indexes) is an
  integer, and JavaScript's arithmetic on integers is exact while magnitudes stay below
  \<open>2^53\<close>. Values that are not integers (fractions, \<^verbatim>\<open>NaN\<close>, infinities) are
  outside the model. A string is the list of its characters.
\<close>

datatype jsval =
    JUndefined
  | JNull
  | JBool bool
  | JNum int
  | JStr string
  | JArr "jsval list"
  | JObj "(string \<times> jsval) list"

text \<open>
  An object is the list of its own enumerable properties in the order
  \<^verbatim>\<open>Object.entries\<close> lists them. \<open>objSet\<close> is the assignment
  \<^verbatim>\<open>obj[key] = val\<close>: an existing property keeps its position, a new one is added
  at the end. \<open>objGet\<close> is the read \<^verbatim>\<open>obj[key]\<close>, which yields
  \<^verbatim>\<open>undefined\<close> for a missing property.
\<close>

type_synonym jsobj = "(string \<times> jsval) list"

fun objSet :: "jsobj \<Rightarrow> string \<Rightarrow> jsval \<Rightarrow> jsobj" where
  "objSet [] key val = [(key, val)]"
| "objSet ((k, v) # rest) key val =
     (if k = key then (k, val) # rest else (k, v) # objSet rest key val)"

fun objGet :: "jsobj \<Rightarrow> string \<Rightarrow> jsval" where
  "objGet [] key = JUndefined"
| "objGet ((k, v) # rest) key = (if k = key then v else objGet rest key)"

definition TAB :: char where
  "TAB = CHR 0x09"

definition NL :: char where
  "NL = CHR 0x0A"

definition startsWith :: "string \<Rightarrow> string \<Rightarrow> bool" where
  "startsWith s p = prefix p s"

definition endsWith :: "string \<Rightarrow> string \<Rightarrow> bool" where
  "endsWith s p = suffix p s"

text \<open>
  \<^verbatim>\<open>String.prototype.indexOf\<close>: the position of the first occurrence of the
  needle, or \<open>-1\<close> when there is none.
\<close>

fun indexOfFrom :: "string \<Rightarrow> string \<Rightarrow> int \<Rightarrow> int" where
  "indexOfFrom [] needle i = (if needle = [] then i else - 1)"
| "indexOfFrom (c # cs) needle i =
     (if prefix needle (c # cs) then i else indexOfFrom cs needle (i + 1))"

definition indexOf :: "string \<Rightarrow> string \<Rightarrow> int" where
  "indexOf s needle = indexOfFrom s needle 0"

text \<open>
  The string a template literal produces for a number. For an integer of magnitude below
  \<open>10^21\<close> this is its decimal notation; the schema check bounds every number by
  \<open>2^53 - 2\<close> before a template literal renders it.
\<close>

fun digitsOfNat :: "nat \<Rightarrow> string" where
  "digitsOfNat n =
     (if n < 10 then [''0123456789'' ! n]
      else digitsOfNat (n div 10) @ [''0123456789'' ! (n mod 10)])"

declare digitsOfNat.simps [simp del]

definition numberToString :: "int \<Rightarrow> string" where
  "numberToString n = (if n < 0 then CHR ''-'' # digitsOfNat (nat (- n)) else digitsOfNat (nat n))"

section \<open>The es.4 document format\<close>

text \<open>
  \<^verbatim>\<open>interface DocEs4\<close>. The nine declared fields have their declared types;
  \<open>deleteAfter\<close> is \<open>None\<close> for \<^verbatim>\<open>null\<close>. \<open>extraFields\<close> holds every other
  own property of the object, among them \<^verbatim>\<open>_localIndex\<close>; their names are not
  names of the nine declared fields.
\<close>

record DocEs4 =
  format :: string
  author :: string
  content :: string
  contentHash :: string
  deleteAfter :: "int option"
  path :: string
  signature :: string
  timestamp :: int
  workspace :: string
  extraFields :: jsobj

record AuthorKeypair =
  address :: string
  secret :: string

text \<open>
  What the format imports from files that are not part of the modelled sources: three
  character sets of \<^verbatim>\<open>core-validators/characters.ts\<close>, the two address checks of
  \<^verbatim>\<open>core-validators/addresses.ts\<close>, the crypto provider, and the clock
  (\<^verbatim>\<open>Date.now()\<close>, in milliseconds). \<open>Crypto_verify\<close> returns \<open>None\<close> when
  the call throws.
\<close>

record Env =
  authorAddressChars :: string
  pathChars :: string
  workspaceAddressChars :: string
  checkAuthorIsValid :: "string \<Rightarrow> error option"
  checkShareIsValid :: "string \<Rightarrow> error option"
  Crypto_sha256base32 :: "string \<Rightarrow> string"
  Crypto_sign :: "AuthorKeypair \<Rightarrow> string \<Rightarrow> error + string"
  Crypto_verify :: "string \<Rightarrow> string \<Rightarrow> string \<Rightarrow> bool option"
  Date_now :: int

definition FUTURE_CUTOFF_MINUTES :: int where
  "FUTURE_CUTOFF_MINUTES = 10"

definition FUTURE_CUTOFF_MICROSECONDS :: int where
  "FUTURE_CUTOFF_MICROSECONDS = FUTURE_CUTOFF_MINUTES * 60 * 1000 * 1000"

definition MIN_TIMESTAMP :: int where
  "MIN_TIMESTAMP = 10000000000000"

definition MAX_TIMESTAMP :: int where
  "MAX_TIMESTAMP = 9007199254740990"

definition MAX_CONTENT_LENGTH :: nat where
  "MAX_CONTENT_LENGTH = 4000000"

definition HASH_STR_LEN :: nat where
  "HASH_STR_LEN = 53"

definition SIG_STR_LEN :: nat where
  "SIG_STR_LEN = 104"

subsection \<open>The schema checkers\<close>

definition b32chars :: string where
  \<comment> \<open>Modelled from the spec: the constant \<^verbatim>\<open>b32chars\<close> of
      \<^verbatim>\<open>core-validators/characters.ts\<close> is missing; the spec fixes the base32
      alphabet as \<^verbatim>\<open>[a-z2-7]\<close>.\<close>
  "b32chars = ''abcdefghijklmnopqrstuvwxyz234567''"

definition onlyHasChars :: "string \<Rightarrow> string \<Rightarrow> bool" where
  "onlyHasChars s allowed = list_all (\<lambda>c. c \<in> set allowed) s"

text \<open>
  The checkers of \<^verbatim>\<open>core-validators/checkers.ts\<close> are missing from the modelled
  sources. The four definitions below give the options of \<^verbatim>\<open>ES4_CORE_SCHEMA\<close>
  the meaning that the specification's data model states for the fields they constrain:
  a path has 2 to 512 characters and a content at most \<open>4 * 10^6\<close>, so \<open>minLen\<close> and
  \<open>maxLen\<close> are themselves allowed lengths and \<open>len\<close> is the exact length; a
  timestamp lies in the half-open interval from \<open>10^13\<close> to \<open>2^53 - 2\<close>, so
  \<open>min\<close> is itself an allowed value and \<open>max\<close> is not. The result is \<open>None\<close>
  for \<^verbatim>\<open>null\<close> (no complaint) or the name of the failed rule. The branches for a
  value of the wrong JavaScript type are excluded by the field types of \<open>DocEs4\<close>.
\<close>

definition checkLiteral :: "string \<Rightarrow> string \<Rightarrow> string option" where
  \<comment> \<open>Modelled from the spec: \<^verbatim>\<open>checkLiteral\<close> is missing; the value must be
      the literal.\<close>
  "checkLiteral lit x = (if x = lit then None else Some ''expected the literal'')"

definition checkString ::
  "string option \<Rightarrow> nat option \<Rightarrow> nat option \<Rightarrow> nat option \<Rightarrow> string \<Rightarrow> string option" where
  \<comment> \<open>Modelled from the spec: \<^verbatim>\<open>checkString\<close> is missing; the options are
      \<^verbatim>\<open>allowedChars\<close>, \<^verbatim>\<open>len\<close>, \<^verbatim>\<open>minLen\<close>,
      \<^verbatim>\<open>maxLen\<close>, each absent (\<open>None\<close>) or given.\<close>
  "checkString allowedChars len minLen maxLen x =
     (if (case len of None \<Rightarrow> False | Some n \<Rightarrow> length x \<noteq> n)
        then Some ''string has the wrong length''
      else if (case minLen of None \<Rightarrow> False | Some n \<Rightarrow> length x < n)
        then Some ''string is too short''
      else if (case maxLen of None \<Rightarrow> False | Some n \<Rightarrow> n < length x)
        then Some ''string is too long''
      else if (case allowedChars of None \<Rightarrow> False | Some cs \<Rightarrow> \<not> onlyHasChars x cs)
        then Some ''string contains disallowed characters''
      else None)"

definition checkInt :: "int option \<Rightarrow> int option \<Rightarrow> bool \<Rightarrow> int option \<Rightarrow> string option" where
  \<comment> \<open>Modelled from the spec: \<^verbatim>\<open>checkInt\<close> is missing; the options are
      \<^verbatim>\<open>min\<close>, \<^verbatim>\<open>max\<close> and \<^verbatim>\<open>nullable\<close>, the checked value is
      \<open>None\<close> for \<^verbatim>\<open>null\<close>. The specification's range for a timestamp,
      \<^verbatim>\<open>[10^13, 2^53-2)\<close>, includes the \<^verbatim>\<open>min\<close> of the schema and excludes
      its \<^verbatim>\<open>max\<close>.\<close>
  "checkInt mn mx nullable x =
     (case x of
        None \<Rightarrow> (if nullable then None else Some ''not nullable'')
      | Some n \<Rightarrow>
          (if (case mn of None \<Rightarrow> False | Some m \<Rightarrow> n < m) then Some ''integer too small''
           else if (case mx of None \<Rightarrow> False | Some m \<Rightarrow> m \<le> n) then Some ''integer too large''
           else None))"

fun firstComplaint :: "(string \<times> string option) list \<Rightarrow> string option" where
  "firstComplaint [] = None"
| "firstComplaint ((key, None) # rest) = firstComplaint rest"
| "firstComplaint ((key, Some err) # rest) = Some (key @ '': '' @ err)"

text \<open>
  \<^verbatim>\<open>checkObj(ES4_CORE_SCHEMA)\<close>, with \<^verbatim>\<open>allowLiteralUndefined: false\<close> and
  \<^verbatim>\<open>allowExtraKeys: false\<close>: a property outside the schema is a complaint, then each
  schema entry checks its field, in the order of the schema.
\<close>

definition checkObj_ES4_CORE_SCHEMA :: "Env \<Rightarrow> DocEs4 \<Rightarrow> string option" where
  \<comment> \<open>Modelled from the spec: \<^verbatim>\<open>checkObj\<close> is missing; the schema is the one of
      the source.\<close>
  "checkObj_ES4_CORE_SCHEMA env doc =
     (if extraFields doc \<noteq> [] then Some ''object has extra keys not in schema''
      else firstComplaint
        [(''format'', checkLiteral ''es.4'' (format doc)),
         (''author'', checkString (Some (authorAddressChars env)) None None None (author doc)),
         (''content'', checkString None None None (Some MAX_CONTENT_LENGTH) (content doc)),
         (''contentHash'', checkString (Some b32chars) (Some HASH_STR_LEN) None None (contentHash doc)),
         (''deleteAfter'', checkInt (Some MIN_TIMESTAMP) (Some MAX_TIMESTAMP) True (deleteAfter doc)),
         (''path'', checkString (Some (pathChars env)) None (Some 2) (Some 512) (path doc)),
         (''signature'', checkString (Some b32chars) (Some SIG_STR_LEN) None None (signature doc)),
         (''timestamp'', checkInt (Some MIN_TIMESTAMP) (Some MAX_TIMESTAMP) False (Some (timestamp doc))),
         (''workspace'', checkString (Some (workspaceAddressChars env)) None None None (workspace doc))])"

subsection \<open>FormatEs4\<close>

text \<open>
  The static methods of \<^verbatim>\<open>FormatEs4\<close>. The methods whose source names begin with
  an underscore are written here without it. A method that returns a promise is modelled
  by the value the promise resolves to.
\<close>

definition checkBasicDocumentValidity :: "Env \<Rightarrow> DocEs4 \<Rightarrow> error option" where
  "checkBasicDocumentValidity env doc =
     (case checkObj_ES4_CORE_SCHEMA env doc of
        Some err \<Rightarrow> Some (ValidationError err)
      | None \<Rightarrow> None)"

definition fakeSignature :: string where
  "fakeSignature =
     ''bthisisafakesignatureusedtofillintheobjectwhenvalidatingitforhashingaaaaaaaaaaaaaaaaaaaaaaaaaaaaaaaaaaaa''"

definition hashDocument :: "Env \<Rightarrow> DocEs4 \<Rightarrow> error + string" where
  "hashDocument env doc =
     (let docWithFakeSig = doc\<lparr>signature := fakeSignature\<rparr> in
      case checkBasicDocumentValidity env docWithFakeSig of
        Some err \<Rightarrow> Inl err
      | None \<Rightarrow>
          Inr (Crypto_sha256base32 env
            (''author'' @ [TAB] @ author doc @ [NL] @
             ''contentHash'' @ [TAB] @ contentHash doc @ [NL] @
             (case deleteAfter doc of
                None \<Rightarrow> ''''
              | Some d \<Rightarrow> ''deleteAfter'' @ [TAB] @ numberToString d @ [NL]) @
             ''format'' @ [TAB] @ format doc @ [NL] @
             ''path'' @ [TAB] @ path doc @ [NL] @
             ''timestamp'' @ [TAB] @ numberToString (timestamp doc) @ [NL] @
             ''workspace'' @ [TAB] @ workspace doc @ [NL])))"

definition signDocument :: "Env \<Rightarrow> AuthorKeypair \<Rightarrow> DocEs4 \<Rightarrow> error + DocEs4" where
  "signDocument env keypair doc =
     (case hashDocument env doc of
        Inl err \<Rightarrow> Inl err
      | Inr hash \<Rightarrow>
          (case Crypto_sign env keypair hash of
             Inl err \<Rightarrow> Inl err
           | Inr sig \<Rightarrow> Inr (doc\<lparr>signature := sig\<rparr>)))"

text \<open>
  \<^verbatim>\<open>removeExtraFields\<close> receives any value at run time and walks
  \<^verbatim>\<open>Object.entries(doc)\<close>. \<open>validKeys\<close> is
  \<^verbatim>\<open>Object.keys(ES4_CORE_SCHEMA.objSchema)\<close>.
\<close>

definition isPlainObject :: "jsval \<Rightarrow> bool" where
  \<comment> \<open>Modelled from the spec: \<^verbatim>\<open>isPlainObject\<close> of
      \<^verbatim>\<open>core-validators/checkers.ts\<close> is missing; a plain javascript object is
      a \<open>JObj\<close>.\<close>
  "isPlainObject x = (case x of JObj entries \<Rightarrow> True | _ \<Rightarrow> False)"

fun Object_entries :: "jsval \<Rightarrow> jsobj" where
  "Object_entries (JObj entries) = entries"
| "Object_entries x = []"

definition validKeys :: "string list" where
  "validKeys =
     [''format'', ''author'', ''content'', ''contentHash'', ''deleteAfter'', ''path'',
      ''signature'', ''timestamp'', ''workspace'']"

fun removeExtraFieldsLoop :: "jsobj \<Rightarrow> jsobj \<Rightarrow> jsobj \<Rightarrow> error + (jsobj \<times> jsobj)" where
  "removeExtraFieldsLoop [] doc2 extras = Inr (doc2, extras)"
| "removeExtraFieldsLoop ((key, val) # rest) doc2 extras =
     (if key \<in> set validKeys then removeExtraFieldsLoop rest (objSet doc2 key val) extras
      else if \<not> startsWith key ''_''
        then Inl (ValidationError
               ''extra document fields must have names starting with an underscore'')
      else removeExtraFieldsLoop rest doc2 (objSet extras key val))"

definition removeExtraFields :: "jsval \<Rightarrow> error + (jsobj \<times> jsobj)" where
  "removeExtraFields doc =
     (if \<not> isPlainObject doc then Inl (ValidationError ''doc is not a plain javascript object'')
      else removeExtraFieldsLoop (Object_entries doc) [] [])"

text \<open>
  A \<open>DocEs4\<close> as the object it is at run time, and the typed view of an object
  (\<^verbatim>\<open>doc2 as DocEs4\<close>). The typed view of a property that is missing or has another
  type is never read by the modelled code: \<open>removeExtraFields\<close> keeps all nine.
\<close>

definition toObject :: "DocEs4 \<Rightarrow> jsobj" where
  "toObject doc =
     [(''format'', JStr (format doc)),
      (''author'', JStr (author doc)),
      (''content'', JStr (content doc)),
      (''contentHash'', JStr (contentHash doc)),
      (''deleteAfter'', (case deleteAfter doc of None \<Rightarrow> JNull | Some d \<Rightarrow> JNum d)),
      (''path'', JStr (path doc)),
      (''signature'', JStr (signature doc)),
      (''timestamp'', JNum (timestamp doc)),
      (''workspace'', JStr (workspace doc))] @ extraFields doc"

fun asString :: "jsval \<Rightarrow> string" where
  "asString (JStr s) = s"
| "asString x = []"

fun asNumber :: "jsval \<Rightarrow> int" where
  "asNumber (JNum n) = n"
| "asNumber x = 0"

fun asNumberOrNull :: "jsval \<Rightarrow> int option" where
  "asNumberOrNull (JNum n) = Some n"
| "asNumberOrNull x = None"

definition asDocEs4 :: "jsobj \<Rightarrow> DocEs4" where
  "asDocEs4 obj =
     \<lparr>format = asString (objGet obj ''format''),
      author = asString (objGet obj ''author''),
      content = asString (objGet obj ''content''),
      contentHash = asString (objGet obj ''contentHash''),
      deleteAfter = asNumberOrNull (objGet obj ''deleteAfter''),
      path = asString (objGet obj ''path''),
      signature = asString (objGet obj ''signature''),
      timestamp = asNumber (objGet obj ''timestamp''),
      workspace = asString (objGet obj ''workspace''),
      extraFields = filter (\<lambda>(k, v). k \<notin> set validKeys) obj\<rparr>"

definition wipeDocument :: "Env \<Rightarrow> AuthorKeypair \<Rightarrow> DocEs4 \<Rightarrow> error + DocEs4" where
  "wipeDocument env keypair doc =
     (if length (content doc) = 0 then Inr doc
      else
        (case removeExtraFields (JObj (toObject doc)) of
           Inl err \<Rightarrow> Inl err
         | Inr (doc2, extras) \<Rightarrow>
             (let cleanedDoc = asDocEs4 doc2;
                  emptyDoc = cleanedDoc
                    \<lparr>content := [],
                     contentHash := Crypto_sha256base32 env [],
                     signature := ''?''\<rparr>
              in signDocument env keypair emptyDoc)))"

definition checkAuthorCanWriteToPath :: "string \<Rightarrow> string \<Rightarrow> error option" where
  "checkAuthorCanWriteToPath auth pth =
     (if indexOf pth ''~'' = - 1 then None
      else if indexOf pth (''~'' @ auth) \<noteq> - 1 then None
      else Some (ValidationError (''author '' @ auth @ '' can't write to path '' @ pth)))"

definition checkTimestampIsOk :: "int \<Rightarrow> int option \<Rightarrow> int \<Rightarrow> error option" where
  "checkTimestampIsOk ts delAfter now =
     (if ts > now + FUTURE_CUTOFF_MICROSECONDS
        then Some (ValidationError ''timestamp too far in the future'')
      else
        (case delAfter of
           None \<Rightarrow> None
         | Some d \<Rightarrow>
             (if now > d then Some (ValidationError ''ephemeral doc has expired'')
              else if d \<le> ts
                then Some (ValidationError ''ephemeral doc expired before it was created'')
              else None)))"

text \<open>
  The second argument of \<^verbatim>\<open>_checkPathIsValid\<close> is optional: \<open>None\<close> is an
  omitted argument (\<^verbatim>\<open>undefined\<close>), \<open>Some None\<close> is \<^verbatim>\<open>null\<close>.
\<close>

definition checkPathIsValid :: "string \<Rightarrow> int option option \<Rightarrow> error option" where
  "checkPathIsValid pth delAfter =
     (if \<not> startsWith pth ''/'' then Some (ValidationError ''invalid path: must start with /'')
      else if endsWith pth ''/'' then Some (ValidationError ''invalid path: must not end with /'')
      else if startsWith pth ''/@''
        then Some (ValidationError (''invalid path: must not start with '' @ [CHR 0x22] @ ''/@'' @ [CHR 0x22]))
      else if indexOf pth ''//'' \<noteq> - 1
        then Some (ValidationError ''invalid path: must not contain two consecutive slashes'')
      else
        (case delAfter of
           None \<Rightarrow> None
         | Some d \<Rightarrow>
             (if indexOf pth ''!'' = - 1 \<and> d \<noteq> None
                then Some (ValidationError
                       (''when deleteAfter is set, path must contain '!'' @ [CHR 0x27]))
              else if indexOf pth ''!'' \<noteq> - 1 \<and> d = None
                then Some (ValidationError
                       (''when deleteAfter is null, path must not contain '!'' @ [CHR 0x27]))
              else None)))"

definition checkAuthorSignatureIsValid :: "Env \<Rightarrow> DocEs4 \<Rightarrow> error option" where
  "checkAuthorSignatureIsValid env doc =
     (case hashDocument env doc of
        Inl err \<Rightarrow> Some err
      | Inr hash \<Rightarrow>
          (case Crypto_verify env (author doc) (signature doc) hash of
             None \<Rightarrow> Some (ValidationError ''signature is invalid (unexpected exception)'')
           | Some verified \<Rightarrow>
               (if verified \<noteq> True then Some (ValidationError ''signature is invalid'')
                else None)))"

definition checkContentMatchesHash :: "Env \<Rightarrow> string \<Rightarrow> string \<Rightarrow> error option" where
  "checkContentMatchesHash env cont contHash =
     (if Crypto_sha256base32 env cont \<noteq> contHash
        then Some (ValidationError ''content does not match contentHash'')
      else None)"

definition checkDocumentIsValid :: "Env \<Rightarrow> DocEs4 \<Rightarrow> int option \<Rightarrow> error option" where
  "checkDocumentIsValid env doc nowArg =
     (let now = (case nowArg of None \<Rightarrow> Date_now env * 1000 | Some n \<Rightarrow> n) in
      case checkBasicDocumentValidity env doc of
        Some errBV \<Rightarrow> Some errBV
      | None \<Rightarrow>
      (case checkTimestampIsOk (timestamp doc) (deleteAfter doc) now of
        Some errT \<Rightarrow> Some errT
      | None \<Rightarrow>
      (case checkAuthorCanWriteToPath (author doc) (path doc) of
        Some errW \<Rightarrow> Some errW
      | None \<Rightarrow>
      (case checkPathIsValid (path doc) (Some (deleteAfter doc)) of
        Some errP \<Rightarrow> Some errP
      | None \<Rightarrow>
      (case checkAuthorIsValid env (author doc) of
        Some errAA \<Rightarrow> Some errAA
      | None \<Rightarrow>
      (case checkShareIsValid env (workspace doc) of
        Some errWA \<Rightarrow> Some errWA
      | None \<Rightarrow>
      (case checkAuthorSignatureIsValid env doc of
        Some errS \<Rightarrow> Some errS
      | None \<Rightarrow>
      (case checkContentMatchesHash env (content doc) (contentHash doc) of
        Some errCH \<Rightarrow> Some errCH
      | None \<Rightarrow> None))))))))"

subsection \<open>The canonical form, as the specification words it\<close>

text \<open>
  The specification describes the hashed string by a procedure: take the fields of the
  document with their values as strings (\<open>None\<close> for \<^verbatim>\<open>null\<close>), sort them by
  name, skip \<open>content\<close>, \<open>signature\<close> and every null field, and emit each remaining
  field as name, tab, value, newline. \<open>canonicalForm\<close> follows these words;
  \<open>hashDocument\<close> above follows the source.
\<close>

definition documentFields :: "DocEs4 \<Rightarrow> (string \<times> string option) list" where
  "documentFields doc =
     [(''format'', Some (format doc)),
      (''author'', Some (author doc)),
      (''content'', Some (content doc)),
      (''contentHash'', Some (contentHash doc)),
      (''deleteAfter'', map_option numberToString (deleteAfter doc)),
      (''path'', Some (path doc)),
      (''signature'', Some (signature doc)),
      (''timestamp'', Some (numberToString (timestamp doc))),
      (''workspace'', Some (workspace doc))]"

fun emitField :: "string \<times> string option \<Rightarrow> string" where
  "emitField (name, None) = []"
| "emitField (name, Some v) = name @ [TAB] @ v @ [NL]"

definition canonicalForm :: "DocEs4 \<Rightarrow> string" where
  "canonicalForm doc =
     concat (map emitField
       (filter (\<lambda>(name, v). name \<noteq> ''content'' \<and> name \<noteq> ''signature'')
         (sort_key fst (documentFields doc))))"

subsection \<open>The order of the checks, as the specification words it\<close>

text \<open>
  The eight sub-checks in the order the specification lists them, and the result it
  describes: the error of the first one that fails, or \<^verbatim>\<open>true\<close> (\<open>None\<close>).
\<close>

definition subChecks :: "Env \<Rightarrow> DocEs4 \<Rightarrow> int \<Rightarrow> error option list" where
  "subChecks env doc now =
     [checkBasicDocumentValidity env doc,
      checkTimestampIsOk (timestamp doc) (deleteAfter doc) now,
      checkAuthorCanWriteToPath (author doc) (path doc),
      checkPathIsValid (path doc) (Some (deleteAfter doc)),
      checkAuthorIsValid env (author doc),
      checkShareIsValid env (workspace doc),
      checkAuthorSignatureIsValid env doc,
      checkContentMatchesHash env (content doc) (contentHash doc)]"

fun firstFailure :: "error option list \<Rightarrow> error option" where
  "firstFailure [] = None"
| "firstFailure (None # rest) = firstFailure rest"
| "firstFailure (Some err # rest) = Some err"

definition isValidationError :: "error option \<Rightarrow> bool" where
  "isValidationError r = (case r of Some (ValidationError msg) \<Rightarrow> True | _ \<Rightarrow> False)"

section \<open>The SQLite FFI document driver\<close>

text \<open>
  The state of a \<^verbatim>\<open>DocDriverSqliteFfi\<close> object. The fields whose source names
  begin with an underscore carry the prefix \<open>priv\<close>. \<open>disk\<close> is not a field of the
  object: it lists the files that exist, which \<^verbatim>\<open>close(true)\<close> removes. The
  database handle, which every constructed driver has, is the content of the two tables.
  A row of \<open>docs\<close> keeps the document that \<^verbatim>\<open>JSON.stringify\<close> wrote and
  \<^verbatim>\<open>JSON.parse\<close> reads back. Statements on an open database succeed.
\<close>

record SqlDocRow =
  row_doc :: DocEs4
  row_localIndex :: int
  row_pathAuthor :: string

record Database =
  db_isOpen :: bool
  config_table :: "(string \<times> string) list"
  docs_table :: "SqlDocRow list"

record DocDriverSqliteFfi =
  share :: string
  priv_filename :: string
  priv_isClosed :: bool
  priv_db :: Database
  priv_maxLocalIndex :: int
  disk :: "string list"

text \<open>
  The statements of \<^verbatim>\<open>sqlite.shared.ts\<close> are missing from the modelled sources.
  They act on the layout the specification gives: \<^verbatim>\<open>config(key PRIMARY KEY,
  content)\<close> and \<^verbatim>\<open>docs(..., pathAuthor UNIQUE, localIndex INTEGER UNIQUE, doc
  JSON, ...)\<close>.
\<close>

definition UPSERT_CONFIG_QUERY :: "string \<Rightarrow> string \<Rightarrow> Database \<Rightarrow> Database" where
  \<comment> \<open>Modelled from the spec: the statement is missing; it stores the content under the
      key, replacing a row with the same primary key.\<close>
  "UPSERT_CONFIG_QUERY key cont d =
     d\<lparr>config_table := filter (\<lambda>(k, c). k \<noteq> key) (config_table d) @ [(key, cont)]\<rparr>"

definition SELECT_CONFIG_CONTENT_QUERY :: "string \<Rightarrow> Database \<Rightarrow> string option" where
  \<comment> \<open>Modelled from the spec: the statement is missing; it reads the content stored under
      the key.\<close>
  "SELECT_CONFIG_CONTENT_QUERY key d = map_of (config_table d) key"

definition SELECT_KEY_CONFIG_QUERY :: "Database \<Rightarrow> string list" where
  \<comment> \<open>Modelled from the spec: the statement is missing; it reads every key.\<close>
  "SELECT_KEY_CONFIG_QUERY d = map fst (config_table d)"

definition DELETE_CONFIG_QUERY :: "string \<Rightarrow> Database \<Rightarrow> Database \<times> nat" where
  \<comment> \<open>Modelled from the spec: the statement is missing; it deletes the row of the key. The
      second component is \<^verbatim>\<open>db.changes\<close>, the number of rows deleted.\<close>
  "DELETE_CONFIG_QUERY key d =
     (d\<lparr>config_table := filter (\<lambda>(k, c). k \<noteq> key) (config_table d)\<rparr>,
      length (filter (\<lambda>(k, c). k = key) (config_table d)))"

definition MAX_LOCAL_INDEX_QUERY :: "Database \<Rightarrow> int option option" where
  \<comment> \<open>Modelled from the spec: the statement is missing; it yields one row holding
      \<^verbatim>\<open>MAX(localIndex)\<close>, which is \<^verbatim>\<open>NULL\<close> (\<open>Some None\<close>) when the
      table has no rows.\<close>
  "MAX_LOCAL_INDEX_QUERY d =
     (case map row_localIndex (docs_table d) of
        [] \<Rightarrow> Some None
      | i # is \<Rightarrow> Some (Some (fold max is i)))"

definition UPSERT_DOC_QUERY :: "SqlDocRow \<Rightarrow> Database \<Rightarrow> Database" where
  \<comment> \<open>Modelled from the spec: the statement is missing; it inserts the row, replacing
      the rows that share one of its unique columns.\<close>
  "UPSERT_DOC_QUERY row d =
     d\<lparr>docs_table :=
         filter (\<lambda>r. row_pathAuthor r \<noteq> row_pathAuthor row \<and> row_localIndex r \<noteq> row_localIndex row)
           (docs_table d) @ [row]\<rparr>"

definition isExpiredRow :: "int \<Rightarrow> SqlDocRow \<Rightarrow> bool" where
  \<comment> \<open>Modelled from the spec: the condition of the two statements on expired documents is
      missing; the specification removes the documents with \<^verbatim>\<open>deleteAfter < now\<close>.\<close>
  "isExpiredRow now r = (case deleteAfter (row_doc r) of None \<Rightarrow> False | Some d \<Rightarrow> d < now)"

definition SELECT_EXPIRED_DOC_QUERY :: "int \<Rightarrow> Database \<Rightarrow> SqlDocRow list" where
  \<comment> \<open>Modelled from the spec: the statement is missing; it reads the expired rows.\<close>
  "SELECT_EXPIRED_DOC_QUERY now d = filter (isExpiredRow now) (docs_table d)"

definition DELETE_EXPIRED_DOC_QUERY :: "int \<Rightarrow> Database \<Rightarrow> Database" where
  \<comment> \<open>Modelled from the spec: the statement is missing; it deletes the expired rows.\<close>
  "DELETE_EXPIRED_DOC_QUERY now d =
     d\<lparr>docs_table := filter (\<lambda>r. \<not> isExpiredRow now r) (docs_table d)\<rparr>"

text \<open>
  The query engine (\<^verbatim>\<open>cleanUpQuery\<close>, \<^verbatim>\<open>makeDocQuerySql\<close> and the
  execution of the statement it builds) is not part of the modelled sources;
  \<open>queryDocs\<close> takes it as a parameter.
\<close>

datatype WillMatch = WillMatchAll | WillMatchSome | WillMatchNothing

record 'q QueryEngine =
  cleanUpQuery :: "'q \<Rightarrow> 'q \<times> WillMatch"
  makeDocQuerySql :: "'q \<Rightarrow> int \<Rightarrow> SqlDocRow list \<Rightarrow> SqlDocRow list"

definition withLocalIndex :: "DocEs4 \<Rightarrow> int \<Rightarrow> DocEs4" where
  \<comment> \<open>\<^verbatim>\<open>{ ...doc, _localIndex: localIndex }\<close>\<close>
  "withLocalIndex doc localIndex =
     doc\<lparr>extraFields := objSet (extraFields doc) ''_localIndex'' (JNum localIndex)\<rparr>"

definition removeFile :: "string \<Rightarrow> string list \<Rightarrow> string list" where
  \<comment> \<open>\<^verbatim>\<open>Deno.remove\<close> inside \<^verbatim>\<open>try\<close>: a missing file changes nothing.\<close>
  "removeFile name files = filter (\<lambda>f. f \<noteq> name) files"

definition close :: "DocDriverSqliteFfi \<Rightarrow> bool \<Rightarrow> error + (unit \<times> DocDriverSqliteFfi)" where
  "close this erase =
     (if priv_isClosed this then Inl ReplicaIsClosedError
      else
        (let this1 = this\<lparr>priv_db := (priv_db this)\<lparr>db_isOpen := False\<rparr>\<rparr>;
             this2 =
               (if erase = True \<and> priv_filename this1 \<noteq> '':memory:''
                then this1\<lparr>disk :=
                       removeFile (priv_filename this1 @ ''-wal'')
                         (removeFile (priv_filename this1 @ ''-shm'')
                           (removeFile (priv_filename this1) (disk this1)))\<rparr>
                else this1)
         in Inr ((), this2\<lparr>priv_isClosed := True\<rparr>)))"

definition isClosed :: "DocDriverSqliteFfi \<Rightarrow> bool" where
  "isClosed this = priv_isClosed this"

definition setConfig ::
  "DocDriverSqliteFfi \<Rightarrow> string \<Rightarrow> string \<Rightarrow> error + (unit \<times> DocDriverSqliteFfi)" where
  "setConfig this key cont =
     (if priv_isClosed this then Inl ReplicaIsClosedError
      else Inr ((), this\<lparr>priv_db := UPSERT_CONFIG_QUERY key cont (priv_db this)\<rparr>))"

definition getConfigSync :: "DocDriverSqliteFfi \<Rightarrow> string \<Rightarrow> string option" where
  "getConfigSync this key = SELECT_CONFIG_CONTENT_QUERY key (priv_db this)"

definition listConfigKeysSync :: "DocDriverSqliteFfi \<Rightarrow> string list" where
  \<comment> \<open>\<^verbatim>\<open>sortedInPlace\<close> of \<^verbatim>\<open>replica/compare.ts\<close> sorts the keys.\<close>
  "listConfigKeysSync this = sort (SELECT_KEY_CONFIG_QUERY (priv_db this))"

definition getConfig ::
  "DocDriverSqliteFfi \<Rightarrow> string \<Rightarrow> error + (string option \<times> DocDriverSqliteFfi)" where
  "getConfig this key =
     (if priv_isClosed this then Inl ReplicaIsClosedError
      else Inr (getConfigSync this key, this))"

definition listConfigKeys :: "DocDriverSqliteFfi \<Rightarrow> error + (string list \<times> DocDriverSqliteFfi)" where
  "listConfigKeys this =
     (if priv_isClosed this then Inl ReplicaIsClosedError
      else Inr (listConfigKeysSync this, this))"

definition deleteConfig ::
  "DocDriverSqliteFfi \<Rightarrow> string \<Rightarrow> error + (bool \<times> DocDriverSqliteFfi)" where
  "deleteConfig this key =
     (if priv_isClosed this then Inl ReplicaIsClosedError
      else
        (let (db', changes) = DELETE_CONFIG_QUERY key (priv_db this)
         in Inr (changes > 0, this\<lparr>priv_db := db'\<rparr>)))"

definition getMaxLocalIndex :: "DocDriverSqliteFfi \<Rightarrow> error + (int \<times> DocDriverSqliteFfi)" where
  "getMaxLocalIndex this =
     (if priv_isClosed this then Inl ReplicaIsClosedError
      else Inr (priv_maxLocalIndex this, this))"

definition queryDocsSync ::
  "'q QueryEngine \<Rightarrow> DocDriverSqliteFfi \<Rightarrow> 'q \<Rightarrow> int \<Rightarrow> error + (DocEs4 list \<times> DocDriverSqliteFfi)" where
  "queryDocsSync engine this queryToClean now =
     (if priv_isClosed this then Inl ReplicaIsClosedError
      else
        (let (query, willMatch) = cleanUpQuery engine queryToClean in
         if willMatch = WillMatchNothing then Inr ([], this)
         else
           (let docRows = makeDocQuerySql engine query now (docs_table (priv_db this))
            in Inr (map (\<lambda>row. withLocalIndex (row_doc row) (row_localIndex row)) docRows, this))))"

definition queryDocs ::
  "'q QueryEngine \<Rightarrow> DocDriverSqliteFfi \<Rightarrow> 'q \<Rightarrow> int \<Rightarrow> error + (DocEs4 list \<times> DocDriverSqliteFfi)" where
  "queryDocs engine this queryToClean now = queryDocsSync engine this queryToClean now"

definition upsertSync :: "DocDriverSqliteFfi \<Rightarrow> DocEs4 \<Rightarrow> error + (DocEs4 \<times> DocDriverSqliteFfi)" where
  "upsertSync this doc =
     (if priv_isClosed this then Inl ReplicaIsClosedError
      else
        (let row = \<lparr>row_doc = doc,
                    row_localIndex = priv_maxLocalIndex this + 1,
                    row_pathAuthor = path doc @ '' '' @ author doc\<rparr>;
             this1 = this\<lparr>priv_maxLocalIndex := priv_maxLocalIndex this + 1\<rparr>;
             this2 = this1\<lparr>priv_db := UPSERT_DOC_QUERY row (priv_db this1)\<rparr>
         in Inr (withLocalIndex doc (row_localIndex row), this2)))"

definition upsert :: "DocDriverSqliteFfi \<Rightarrow> DocEs4 \<Rightarrow> error + (DocEs4 \<times> DocDriverSqliteFfi)" where
  "upsert this doc = upsertSync this doc"

definition eraseExpiredDocs ::
  "DocDriverSqliteFfi \<Rightarrow> int \<Rightarrow> error + (DocEs4 list \<times> DocDriverSqliteFfi)" where
  "eraseExpiredDocs this now =
     (if priv_isClosed this then Inl ReplicaIsClosedError
      else
        (let docsToWipe = SELECT_EXPIRED_DOC_QUERY now (priv_db this);
             this1 = this\<lparr>priv_db := DELETE_EXPIRED_DOC_QUERY now (priv_db this)\<rparr>
         in Inr (map row_doc docsToWipe, this1)))"

text \<open>
  The value the constructor assigns to \<^verbatim>\<open>_maxLocalIndex\<close> from the database it
  opened: \<open>-1\<close> when the statement yields no row, and \<open>-1\<close> when the maximum is
  \<^verbatim>\<open>null\<close>.
\<close>

definition initialMaxLocalIndex :: "Database \<Rightarrow> int" where
  "initialMaxLocalIndex d =
     (let maxLocalIndexResult = MAX_LOCAL_INDEX_QUERY d;
          maxLocalIndex = (case maxLocalIndexResult of None \<Rightarrow> Some (- 1) | Some m \<Rightarrow> m)
      in (case maxLocalIndex of Some m \<Rightarrow> m | None \<Rightarrow> - 1))"

subsection \<open>Sequences of calls on one driver\<close>

text \<open>
  A caller's method calls on one driver object, in the order they are made. The two
  methods that read the clock (\<^verbatim>\<open>Date.now() * 1000\<close>) carry the reading. A call
  that throws leaves the object as it was: each method throws before it assigns.
\<close>

datatype 'q Call =
    CallSetConfig string string
  | CallGetConfig string
  | CallListConfigKeys
  | CallDeleteConfig string
  | CallGetMaxLocalIndex
  | CallQueryDocs 'q int
  | CallUpsert DocEs4
  | CallEraseExpiredDocs int
  | CallClose bool

datatype Returned =
    RetVoid
  | RetConfig "string option"
  | RetKeys "string list"
  | RetBool bool
  | RetNumber int
  | RetDocs "DocEs4 list"
  | RetDoc DocEs4

definition returning ::
  "('a \<Rightarrow> Returned) \<Rightarrow> error + ('a \<times> DocDriverSqliteFfi) \<Rightarrow> error + (Returned \<times> DocDriverSqliteFfi)" where
  "returning wrap r = (case r of Inl err \<Rightarrow> Inl err | Inr (v, this) \<Rightarrow> Inr (wrap v, this))"

fun call ::
  "'q QueryEngine \<Rightarrow> DocDriverSqliteFfi \<Rightarrow> 'q Call \<Rightarrow> error + (Returned \<times> DocDriverSqliteFfi)" where
  "call engine this (CallSetConfig key cont) = returning (\<lambda>u. RetVoid) (setConfig this key cont)"
| "call engine this (CallGetConfig key) = returning RetConfig (getConfig this key)"
| "call engine this CallListConfigKeys = returning RetKeys (listConfigKeys this)"
| "call engine this (CallDeleteConfig key) = returning RetBool (deleteConfig this key)"
| "call engine this CallGetMaxLocalIndex = returning RetNumber (getMaxLocalIndex this)"
| "call engine this (CallQueryDocs q now) = returning RetDocs (queryDocs engine this q now)"
| "call engine this (CallUpsert doc) = returning RetDoc (upsert this doc)"
| "call engine this (CallEraseExpiredDocs now) = returning RetDocs (eraseExpiredDocs this now)"
| "call engine this (CallClose erase) = returning (\<lambda>u. RetVoid) (close this erase)"

fun calls ::
  "'q QueryEngine \<Rightarrow> DocDriverSqliteFfi \<Rightarrow> 'q Call list
     \<Rightarrow> (error + Returned) list \<times> DocDriverSqliteFfi" where
  "calls engine this [] = ([], this)"
| "calls engine this (c # cs) =
     (case call engine this c of
        Inl err \<Rightarrow> (let (rs, final) = calls engine this cs in (Inl err # rs, final))
      | Inr (v, this1) \<Rightarrow> (let (rs, final) = calls engine this1 cs in (Inr v # rs, final)))"

text \<open>
  The \<^verbatim>\<open>_localIndex\<close> values of the documents that the successful
  \<^verbatim>\<open>upsert\<close> calls of a sequence returned, in call order. No other method
  returns a single document.
\<close>

fun assignedLocalIndexes :: "(error + Returned) list \<Rightarrow> int list" where
  "assignedLocalIndexes [] = []"
| "assignedLocalIndexes (Inr (RetDoc stored) # rs) =
     asNumber (objGet (extraFields stored) ''_localIndex'') # assignedLocalIndexes rs"
| "assignedLocalIndexes (r # rs) = assignedLocalIndexes rs"

section \<open>Concrete inputs\<close>

text \<open>
  An environment to run the code on concrete documents: the alphabets of the address and
  path grammar, address checks that accept, and a stand-in crypto provider. Its hash
  function is the table of the SHA-256 values of the two contents used below and a fixed
  string elsewhere; its signatures are one fixed string, which its verification accepts.
\<close>

definition stubHash :: "string \<Rightarrow> string" where
  "stubHash s =
     (if s = ''hello'' then ''bftze3os7wcrq4jxihmvmlopctynrmhs4d6tuexttaqzwfe4ltasa''
      else if s = [] then ''b4oymiquy7qobjgx36tejs35zeqt24qpemsnzgtfeswmrw6csxbkq''
      else ''bafpx426fv2xuqnzebcpjeuwmco2qsungw2kbeurhmxh7jv4agbxa'')"

definition stubSignature :: string where
  "stubSignature =
     ''babz6yjtnj62k3pz5cbfkofhz6eidf7mkw3mifh6ebnjmq33eqxlzfdgc5pkgi3z74pzxjpqr3ec36s7cox5in44itwbkt564lza52mq''"

definition stubEnv :: Env where
  "stubEnv =
     \<lparr>authorAddressChars = ''abcdefghijklmnopqrstuvwxyz0123456789@.'',
      pathChars =
        ''abcdefghijklmnopqrstuvwxyzABCDEFGHIJKLMNOPQRSTUVWXYZ0123456789/'()-._~!$&+,:=@%'',
      workspaceAddressChars = ''abcdefghijklmnopqrstuvwxyz0123456789+.'',
      checkAuthorIsValid = (\<lambda>a. None),
      checkShareIsValid = (\<lambda>a. None),
      Crypto_sha256base32 = stubHash,
      Crypto_sign = (\<lambda>keypair msg. Inr stubSignature),
      Crypto_verify = (\<lambda>a sig msg. Some (sig = stubSignature)),
      Date_now = 1700000000000\<rparr>"

definition suzy :: string where
  "suzy = ''@suzy.bo5sotcncvkr7p4c3lnexxpb4hjqi5tcxcov5b4irbnnz2teoifua''"

definition fred :: string where
  "fred = ''@fred.bf5iffsp5cwyzuggfqtibgy2wqgmgcpymgtueicpppe4hbgqvt3ba''"

definition suzyKeypair :: AuthorKeypair where
  "suzyKeypair =
     \<lparr>address = suzy, secret = ''bi3wc5t2davawohzjgfg6vzd3rmn426rknujaarnxlbqvx4cg7mdo''\<rparr>"

definition docHello :: DocEs4 where
  "docHello =
     \<lparr>format = ''es.4'',
      author = suzy,
      content = ''hello'',
      contentHash = ''bftze3os7wcrq4jxihmvmlopctynrmhs4d6tuexttaqzwfe4ltasa'',
      deleteAfter = None,
      path = ''/wiki/hello'',
      signature = stubSignature,
      timestamp = 1700000000000000,
      workspace = ''+gardening.bafpx426fv2xuqnzebcpjeuwmco2qsungw2kbeurhmxh7jv4agbxa'',
      extraFields = []\<rparr>"

definition nowHello :: int where
  "nowHello = 1700000000000000"

definition docBelowMax :: DocEs4 where
  "docBelowMax = docHello\<lparr>timestamp := 9007199254740989\<rparr>"

definition docAtMax :: DocEs4 where
  "docAtMax = docHello\<lparr>timestamp := 9007199254740990\<rparr>"

definition docAtCutoff :: DocEs4 where
  "docAtCutoff = docHello\<lparr>timestamp := 1700000600000000\<rparr>"

definition docFuture :: DocEs4 where
  "docFuture = docHello\<lparr>timestamp := 1700000600000001\<rparr>"

definition docEphemeral :: DocEs4 where
  "docEphemeral = docHello\<lparr>path := ''/chat/hi!'', deleteAfter := Some 1700000600000000\<rparr>"

definition docSetNoBang :: DocEs4 where
  "docSetNoBang = docHello\<lparr>deleteAfter := Some 1700000600000000\<rparr>"

definition docBangNull :: DocEs4 where
  "docBangNull = docHello\<lparr>path := ''/chat/hi!''\<rparr>"

definition docOwned :: DocEs4 where
  "docOwned =
     docHello\<lparr>path := ''/about/~@fred.bf5iffsp5cwyzuggfqtibgy2wqgmgcpymgtueicpppe4hbgqvt3ba/name''\<rparr>"

definition objUnderscore :: jsval where
  "objUnderscore =
     JObj [(''format'', JStr ''es.4''), (''_localIndex'', JNum 7), (''path'', JStr ''/wiki/hello'')]"

definition objStray :: jsval where
  "objStray = JObj [(''format'', JStr ''es.4''), (''color'', JStr ''red'')]"

definition emptyMemoryDriver :: DocDriverSqliteFfi where
  "emptyMemoryDriver =
     \<lparr>share = ''+gardening.bafpx426fv2xuqnzebcpjeuwmco2qsungw2kbeurhmxh7jv4agbxa'',
      priv_filename = '':memory:'',
      priv_isClosed = False,
      priv_db = \<lparr>db_isOpen = True,
                 config_table =
                   [(''schemaVersion'', ''2''),
                    (''share'', ''+gardening.bafpx426fv2xuqnzebcpjeuwmco2qsungw2kbeurhmxh7jv4agbxa'')],
                 docs_table = []\<rparr>,
      priv_maxLocalIndex = - 1,
      disk = []\<rparr>"

definition noQueryEngine :: "unit QueryEngine" where
  "noQueryEngine =
     \<lparr>cleanUpQuery = (\<lambda>q. (q, WillMatchAll)), makeDocQuerySql = (\<lambda>q now rows. rows)\<rparr>"

definition emptiedDriver :: DocDriverSqliteFfi where
  "emptiedDriver = emptyMemoryDriver\<lparr>priv_maxLocalIndex := 0\<rparr>"

definition closedMemoryDriver :: DocDriverSqliteFfi where
  "closedMemoryDriver =
     emptyMemoryDriver
       \<lparr>priv_isClosed := True, priv_db := (priv_db emptyMemoryDriver)\<lparr>db_isOpen := False\<rparr>\<rparr>"

section \<open>Properties of the format\<close>

subsection \<open>The schema check\<close>

lemmas schema_defs =
  checkBasicDocumentValidity_def checkObj_ES4_CORE_SCHEMA_def checkLiteral_def checkString_def
  checkInt_def

lemmas schema_consts =
  MIN_TIMESTAMP_def MAX_TIMESTAMP_def MAX_CONTENT_LENGTH_def HASH_STR_LEN_def SIG_STR_LEN_def
  b32chars_def onlyHasChars_def

lemma fakeSignature_ok:
  "checkString (Some b32chars) (Some SIG_STR_LEN) None None fakeSignature = None"
  by (simp add: checkString_def fakeSignature_def SIG_STR_LEN_def onlyHasChars_def b32chars_def)

lemma firstComplaint_None_iff:
  "firstComplaint rs = None \<longleftrightarrow> (\<forall>r \<in> set rs. snd r = None)"
  by (induction rs rule: firstComplaint.induct) auto

lemma basic_None_iff:
  "checkBasicDocumentValidity env doc = None \<longleftrightarrow>
     extraFields doc = [] \<and>
     checkLiteral ''es.4'' (format doc) = None \<and>
     checkString (Some (authorAddressChars env)) None None None (author doc) = None \<and>
     checkString None None None (Some MAX_CONTENT_LENGTH) (content doc) = None \<and>
     checkString (Some b32chars) (Some HASH_STR_LEN) None None (contentHash doc) = None \<and>
     checkInt (Some MIN_TIMESTAMP) (Some MAX_TIMESTAMP) True (deleteAfter doc) = None \<and>
     checkString (Some (pathChars env)) None (Some 2) (Some 512) (path doc) = None \<and>
     checkString (Some b32chars) (Some SIG_STR_LEN) None None (signature doc) = None \<and>
     checkInt (Some MIN_TIMESTAMP) (Some MAX_TIMESTAMP) False (Some (timestamp doc)) = None \<and>
     checkString (Some (workspaceAddressChars env)) None None None (workspace doc) = None"
proof -
  have "checkBasicDocumentValidity env doc = None \<longleftrightarrow> checkObj_ES4_CORE_SCHEMA env doc = None"
    by (simp add: checkBasicDocumentValidity_def split: option.splits)
  then show ?thesis
    by (simp add: checkObj_ES4_CORE_SCHEMA_def firstComplaint_None_iff)
qed

lemma basic_fake:
  assumes "checkBasicDocumentValidity env doc = None"
  shows "checkBasicDocumentValidity env (doc\<lparr>signature := fakeSignature\<rparr>) = None"
  using assms by (simp add: basic_None_iff fakeSignature_ok)

lemma basic_timestamp_range:
  "checkBasicDocumentValidity env doc = None \<Longrightarrow>
     10 ^ 13 \<le> timestamp doc \<and> timestamp doc < 2 ^ 53 - 2"
  by (auto simp: basic_None_iff checkInt_def MIN_TIMESTAMP_def MAX_TIMESTAMP_def split: if_splits)

subsection \<open>Strings\<close>

lemma indexOfFrom_absent:
  "0 \<le> i \<Longrightarrow> indexOfFrom s needle i = - 1 \<longleftrightarrow> \<not> sublist needle s"
proof (induction s arbitrary: i)
  case Nil
  then show ?case by auto
next
  case (Cons c cs)
  from Cons.prems have "0 \<le> i + 1" by simp
  from Cons.IH [OF this] Cons.prems show ?case
    by (auto simp: sublist_Cons_right)
qed

lemma indexOf_absent: "indexOf s needle = - 1 \<longleftrightarrow> \<not> sublist needle s"
  by (simp add: indexOf_def indexOfFrom_absent)

lemma sublist_single: "sublist [c] s \<longleftrightarrow> c \<in> set s"
  by (induction s) (auto simp: sublist_Cons_right)

lemma indexOf_char_absent: "indexOf s [c] = - 1 \<longleftrightarrow> c \<notin> set s"
  by (simp add: indexOf_absent sublist_single)

subsection \<open>Every failure of the first four checks is a ValidationError\<close>

lemma isValidationError_simps:
  "isValidationError (Some (ValidationError msg))"
  "\<not> isValidationError None"
  by (simp_all add: isValidationError_def)

lemma basic_isValidationError:
  "checkBasicDocumentValidity env doc \<noteq> None \<Longrightarrow>
     isValidationError (checkBasicDocumentValidity env doc)"
  by (auto simp: checkBasicDocumentValidity_def isValidationError_def split: option.splits)

lemma timestamp_isValidationError:
  "checkTimestampIsOk ts d now \<noteq> None \<Longrightarrow> isValidationError (checkTimestampIsOk ts d now)"
  by (auto simp: checkTimestampIsOk_def isValidationError_def split: option.splits if_splits)

lemma canWrite_isValidationError:
  "checkAuthorCanWriteToPath a p \<noteq> None \<Longrightarrow> isValidationError (checkAuthorCanWriteToPath a p)"
  by (auto simp: checkAuthorCanWriteToPath_def isValidationError_def split: if_splits)

lemma pathValid_isValidationError:
  "checkPathIsValid p d \<noteq> None \<Longrightarrow> isValidationError (checkPathIsValid p d)"
  by (auto simp: checkPathIsValid_def isValidationError_def split: option.splits if_splits)

lemma timestamp_cutoff:
  "checkTimestampIsOk ts d now = None \<Longrightarrow> ts \<le> now + 6 * 10 ^ 8"
  by (auto simp: checkTimestampIsOk_def FUTURE_CUTOFF_MICROSECONDS_def FUTURE_CUTOFF_MINUTES_def
      split: if_splits)

lemma valid_imp_first_four:
  "checkDocumentIsValid env doc (Some now) = None \<Longrightarrow>
     checkBasicDocumentValidity env doc = None \<and>
     checkTimestampIsOk (timestamp doc) (deleteAfter doc) now = None \<and>
     checkAuthorCanWriteToPath (author doc) (path doc) = None \<and>
     checkPathIsValid (path doc) (Some (deleteAfter doc)) = None"
  by (simp add: checkDocumentIsValid_def split: option.splits)

lemma valid_basic_error:
  "checkBasicDocumentValidity env doc \<noteq> None \<Longrightarrow>
     checkDocumentIsValid env doc nowArg = checkBasicDocumentValidity env doc"
  by (auto simp: checkDocumentIsValid_def Let_def split: option.splits)

lemma valid_timestamp_error:
  "checkBasicDocumentValidity env doc = None \<Longrightarrow>
   checkTimestampIsOk (timestamp doc) (deleteAfter doc) now \<noteq> None \<Longrightarrow>
     checkDocumentIsValid env doc (Some now) =
       checkTimestampIsOk (timestamp doc) (deleteAfter doc) now"
  by (auto simp: checkDocumentIsValid_def Let_def split: option.splits)

lemma pathValid_ephemeral:
  "checkPathIsValid p (Some d) = None \<Longrightarrow> (d \<noteq> None \<longleftrightarrow> CHR ''!'' \<in> set p)"
  using indexOf_char_absent [of p "CHR ''!''"]
  by (auto simp: checkPathIsValid_def split: if_splits)

lemma valid_path_error:
  "checkBasicDocumentValidity env doc = None \<Longrightarrow>
   checkTimestampIsOk (timestamp doc) (deleteAfter doc) now = None \<Longrightarrow>
   checkAuthorCanWriteToPath (author doc) (path doc) = None \<Longrightarrow>
   checkPathIsValid (path doc) (Some (deleteAfter doc)) \<noteq> None \<Longrightarrow>
     checkDocumentIsValid env doc (Some now) = checkPathIsValid (path doc) (Some (deleteAfter doc))"
  by (auto simp: checkDocumentIsValid_def Let_def split: option.splits)

lemma canWrite_eq:
  "checkAuthorCanWriteToPath a p = None \<longleftrightarrow> CHR ''~'' \<notin> set p \<or> sublist (''~'' @ a) p"
  using indexOf_char_absent [of p "CHR ''~''"] indexOf_absent [of p "''~'' @ a"]
  by (auto simp: checkAuthorCanWriteToPath_def)

lemma valid_canWrite_error:
  assumes "checkAuthorCanWriteToPath (author doc) (path doc) \<noteq> None"
  shows "isValidationError (checkDocumentIsValid env doc nowArg)"
proof (cases "checkBasicDocumentValidity env doc")
  case (Some e)
  then show ?thesis
    using basic_isValidationError [of env doc] by (simp add: valid_basic_error)
next
  case None
  define now where "now = (case nowArg of None \<Rightarrow> Date_now env * 1000 | Some n \<Rightarrow> n)"
  show ?thesis
  proof (cases "checkTimestampIsOk (timestamp doc) (deleteAfter doc) now")
    case (Some e)
    then have "checkDocumentIsValid env doc nowArg =
        checkTimestampIsOk (timestamp doc) (deleteAfter doc) now"
      using None by (simp add: checkDocumentIsValid_def now_def)
    then show ?thesis
      using Some timestamp_isValidationError [of "timestamp doc" "deleteAfter doc" now] by simp
  next
    case ts: None
    obtain e where e: "checkAuthorCanWriteToPath (author doc) (path doc) = Some e"
      using assms by blast
    then have "checkDocumentIsValid env doc nowArg =
        checkAuthorCanWriteToPath (author doc) (path doc)"
      using None ts by (simp add: checkDocumentIsValid_def now_def)
    then show ?thesis
      using assms canWrite_isValidationError by simp
  qed
qed

subsection \<open>The hash of a document\<close>

lemma sorted_fields:
  "sort_key fst (documentFields doc) =
     [(''author'', Some (author doc)),
      (''content'', Some (content doc)),
      (''contentHash'', Some (contentHash doc)),
      (''deleteAfter'', map_option numberToString (deleteAfter doc)),
      (''format'', Some (format doc)),
      (''path'', Some (path doc)),
      (''signature'', Some (signature doc)),
      (''timestamp'', Some (numberToString (timestamp doc))),
      (''workspace'', Some (workspace doc))]"
  by (simp add: documentFields_def)

lemma canonicalForm_eq:
  "canonicalForm doc =
     ''author'' @ [TAB] @ author doc @ [NL] @
     ''contentHash'' @ [TAB] @ contentHash doc @ [NL] @
     (case deleteAfter doc of
        None \<Rightarrow> []
      | Some d \<Rightarrow> ''deleteAfter'' @ [TAB] @ numberToString d @ [NL]) @
     ''format'' @ [TAB] @ format doc @ [NL] @
     ''path'' @ [TAB] @ path doc @ [NL] @
     ''timestamp'' @ [TAB] @ numberToString (timestamp doc) @ [NL] @
     ''workspace'' @ [TAB] @ workspace doc @ [NL]"
  by (simp add: canonicalForm_def sorted_fields split: option.splits)

lemma hashDocument_signature_update:
  "hashDocument env (doc\<lparr>signature := s\<rparr>) = hashDocument env doc"
  by (simp add: hashDocument_def Let_def split: option.splits)

lemma hashDocument_of_basic:
  assumes "checkBasicDocumentValidity env doc = None"
  shows "hashDocument env doc = Inr (Crypto_sha256base32 env (canonicalForm doc))"
proof -
  have "checkBasicDocumentValidity env (doc\<lparr>signature := fakeSignature\<rparr>) = None"
    using assms by (rule basic_fake)
  then show ?thesis
    by (simp add: hashDocument_def Let_def canonicalForm_eq)
qed

subsection \<open>Removing extra fields\<close>

lemma objSet_fresh: "key \<notin> fst ` set obj \<Longrightarrow> objSet obj key val = obj @ [(key, val)]"
  by (induction obj) auto

lemma removeExtraFieldsLoop_ok:
  assumes "list_all (\<lambda>(k, v). k \<in> set validKeys \<or> startsWith k ''_'') es"
    and "distinct (map fst es)"
    and "fst ` set es \<inter> fst ` set doc2 = {}"
    and "fst ` set es \<inter> fst ` set extras = {}"
  shows "removeExtraFieldsLoop es doc2 extras =
     Inr (doc2 @ filter (\<lambda>(k, v). k \<in> set validKeys) es,
          extras @ filter (\<lambda>(k, v). k \<notin> set validKeys) es)"
  using assms
proof (induction es arbitrary: doc2 extras)
  case Nil
  then show ?case by simp
next
  case (Cons e es)
  obtain k v where e: "e = (k, v)" by (cases e)
  show ?case
  proof (cases "k \<in> set validKeys")
    case True
    have fresh: "k \<notin> fst ` set doc2" using Cons.prems(3) e by auto
    have "removeExtraFieldsLoop es (doc2 @ [(k, v)]) extras =
        Inr ((doc2 @ [(k, v)]) @ filter (\<lambda>(k, v). k \<in> set validKeys) es,
             extras @ filter (\<lambda>(k, v). k \<notin> set validKeys) es)"
      using Cons.prems e by (intro Cons.IH) auto
    then show ?thesis
      using True e fresh by (simp add: objSet_fresh)
  next
    case False
    have fresh: "k \<notin> fst ` set extras" using Cons.prems(4) e by auto
    have us: "startsWith k ''_''" using Cons.prems(1) e False by simp
    have "removeExtraFieldsLoop es doc2 (extras @ [(k, v)]) =
        Inr (doc2 @ filter (\<lambda>(k, v). k \<in> set validKeys) es,
             (extras @ [(k, v)]) @ filter (\<lambda>(k, v). k \<notin> set validKeys) es)"
      using Cons.prems e by (intro Cons.IH) auto
    then show ?thesis
      using False e fresh us by (simp add: objSet_fresh)
  qed
qed

lemma removeExtraFieldsLoop_err:
  assumes "\<not> list_all (\<lambda>(k, v). k \<in> set validKeys \<or> startsWith k ''_'') es"
  shows "removeExtraFieldsLoop es doc2 extras =
     Inl (ValidationError ''extra document fields must have names starting with an underscore'')"
  using assms
proof (induction es arbitrary: doc2 extras)
  case Nil
  then show ?case by simp
next
  case (Cons e es)
  obtain k v where e: "e = (k, v)" by (cases e)
  show ?case
  proof (cases "k \<in> set validKeys \<or> startsWith k ''_''")
    case True
    with Cons.prems e
    have "\<not> list_all (\<lambda>(k, v). k \<in> set validKeys \<or> startsWith k ''_'') es"
      by simp
    from Cons.IH [OF this] True e show ?thesis by simp
  next
    case False
    with e show ?thesis by simp
  qed
qed

subsection \<open>Wiping a document\<close>

lemma removeExtraFieldsLoop_extras_only:
  assumes "\<forall>k \<in> fst ` set es. k \<notin> set validKeys"
    and "removeExtraFieldsLoop es doc2 extras = Inr (doc2', extras')"
  shows "doc2' = doc2"
  using assms
proof (induction es arbitrary: extras)
  case Nil
  then show ?case by simp
next
  case (Cons e es)
  obtain k v where e: "e = (k, v)" by (cases e)
  from Cons.prems(1) e have k: "k \<notin> set validKeys" by simp
  from Cons.prems(2) e k
  have "removeExtraFieldsLoop es doc2 (objSet extras k v) = Inr (doc2', extras')"
    by (simp split: if_splits)
  moreover from Cons.prems(1) have "\<forall>k \<in> fst ` set es. k \<notin> set validKeys" by simp
  ultimately show ?case by (rule Cons.IH [rotated])
qed

lemma removeExtraFieldsLoop_core:
  "removeExtraFieldsLoop (toObject doc) [] [] =
     removeExtraFieldsLoop (extraFields doc) (toObject (doc\<lparr>extraFields := []\<rparr>)) []"
  by (simp add: toObject_def validKeys_def)

lemma asDocEs4_core: "asDocEs4 (toObject (doc\<lparr>extraFields := []\<rparr>)) = doc\<lparr>extraFields := []\<rparr>"
  by (cases doc) (simp add: asDocEs4_def toObject_def validKeys_def split: option.splits)

lemma removeExtraFields_toObject:
  assumes "\<forall>k \<in> fst ` set (extraFields doc). k \<notin> set validKeys"
    and "removeExtraFields (JObj (toObject doc)) = Inr (doc2, extras)"
  shows "asDocEs4 doc2 = doc\<lparr>extraFields := []\<rparr>"
proof -
  from assms(2)
  have "removeExtraFieldsLoop (extraFields doc) (toObject (doc\<lparr>extraFields := []\<rparr>)) [] =
      Inr (doc2, extras)"
    by (simp add: removeExtraFields_def isPlainObject_def removeExtraFieldsLoop_core)
  with assms(1) have "doc2 = toObject (doc\<lparr>extraFields := []\<rparr>)"
    by (rule removeExtraFieldsLoop_extras_only)
  then show ?thesis by (simp add: asDocEs4_core)
qed

lemma signDocument_fields:
  "signDocument env keypair d = Inr d' \<Longrightarrow> \<exists>sig. d' = d\<lparr>signature := sig\<rparr>"
  by (auto simp: signDocument_def split: sum.splits)

subsection \<open>The stand-in environment\<close>

lemma stubEnv_sel:
  "checkAuthorIsValid stubEnv = (\<lambda>a. None)"
  "checkShareIsValid stubEnv = (\<lambda>a. None)"
  "Crypto_sha256base32 stubEnv = stubHash"
  "Crypto_sign stubEnv = (\<lambda>keypair msg. Inr stubSignature)"
  "Crypto_verify stubEnv = (\<lambda>a sig msg. Some (sig = stubSignature))"
  by (simp_all add: stubEnv_def)

lemma stub_valid:
  assumes "checkBasicDocumentValidity stubEnv d = None"
    and "checkTimestampIsOk (timestamp d) (deleteAfter d) now = None"
    and "checkAuthorCanWriteToPath (author d) (path d) = None"
    and "checkPathIsValid (path d) (Some (deleteAfter d)) = None"
    and "signature d = stubSignature"
    and "stubHash (content d) = contentHash d"
  shows "checkDocumentIsValid stubEnv d (Some now) = None"
  using assms
  by (simp add: checkDocumentIsValid_def checkAuthorSignatureIsValid_def hashDocument_of_basic
      checkContentMatchesHash_def stubEnv_sel)

lemmas doc_defs = docHello_def suzy_def fred_def stubSignature_def

lemmas check_defs = checkTimestampIsOk_def checkAuthorCanWriteToPath_def checkPathIsValid_def
  FUTURE_CUTOFF_MICROSECONDS_def FUTURE_CUTOFF_MINUTES_def startsWith_def endsWith_def indexOf_def
  suffix_to_prefix

lemma basic_docHello: "checkBasicDocumentValidity stubEnv docHello = None"
  by (simp add: schema_defs schema_consts stubEnv_def docHello_def suzy_def stubSignature_def)

section \<open>The claims about the format\<close>

text \<open>
  C1. For every es.4 document that passes the basic structural validity check,
  \<open>hashDocument\<close> returns the hash (base32-encoded SHA-256, as the crypto provider
  computes it) of exactly the canonical string: the fields sorted by name, \<open>content\<close>,
  \<open>signature\<close> and a null \<open>deleteAfter\<close> left out, each remaining field emitted as
  name, tab, value, newline, and nothing else.
\<close>

theorem hashDocument_canonical:
  "checkBasicDocumentValidity env doc = None \<Longrightarrow>
     hashDocument env doc = Inr (Crypto_sha256base32 env (canonicalForm doc))"
  by (rule hashDocument_of_basic)

theorem hashDocument_canonical_witness:
  "checkBasicDocumentValidity stubEnv docHello = None \<and>
   hashDocument stubEnv docHello = Inr (stubHash (canonicalForm docHello)) \<and>
   canonicalForm docHello =
     ''author'' @ [TAB] @ suzy @ [NL] @
     ''contentHash'' @ [TAB] @ ''bftze3os7wcrq4jxihmvmlopctynrmhs4d6tuexttaqzwfe4ltasa'' @ [NL] @
     ''format'' @ [TAB] @ ''es.4'' @ [NL] @
     ''path'' @ [TAB] @ ''/wiki/hello'' @ [NL] @
     ''timestamp'' @ [TAB] @ ''1700000000000000'' @ [NL] @
     ''workspace'' @ [TAB] @ ''+gardening.bafpx426fv2xuqnzebcpjeuwmco2qsungw2kbeurhmxh7jv4agbxa'' @ [NL]"
proof -
  have "hashDocument stubEnv docHello = Inr (stubHash (canonicalForm docHello))"
    using hashDocument_canonical [OF basic_docHello] by (simp add: stubEnv_sel)
  moreover have "numberToString 1700000000000000 = ''1700000000000000''"
    by (simp add: numberToString_def digitsOfNat.simps)
  ultimately show ?thesis
    using basic_docHello by (simp add: canonicalForm_eq docHello_def)
qed

text \<open>
  C2. The claim asks for a timestamp strictly greater than the original's, and the comment
  in \<^verbatim>\<open>wipeDocument\<close> announces a document \<^verbatim>\<open>just barely newer than the
  original\<close>. The code copies the timestamp: whenever \<open>wipeDocument\<close> returns a
  document, for a document whose extra properties have names outside the schema, that
  document has the path, the author and the timestamp of the original and empty content.
\<close>

theorem wipeDocument_keeps_timestamp:
  assumes "\<forall>k \<in> fst ` set (extraFields doc). k \<notin> set validKeys"
    and "wipeDocument env keypair doc = Inr wiped"
  shows "timestamp wiped = timestamp doc \<and> path wiped = path doc \<and> author wiped = author doc \<and>
     content wiped = []"
proof (cases "content doc = []")
  case True
  with assms(2) show ?thesis by (simp add: wipeDocument_def)
next
  case False
  from assms(2) False obtain doc2 extras where
    r: "removeExtraFields (JObj (toObject doc)) = Inr (doc2, extras)" and
    s: "signDocument env keypair
          ((asDocEs4 doc2)\<lparr>content := [], contentHash := Crypto_sha256base32 env [],
             signature := ''?''\<rparr>) = Inr wiped"
    by (auto simp: wipeDocument_def Let_def split: sum.splits)
  from removeExtraFields_toObject [OF assms(1) r]
  have c: "asDocEs4 doc2 = doc\<lparr>extraFields := []\<rparr>" .
  from signDocument_fields [OF s] obtain sig where
    "wiped = (asDocEs4 doc2)\<lparr>content := [], contentHash := Crypto_sha256base32 env [],
             signature := ''?''\<rparr>\<lparr>signature := sig\<rparr>" by blast
  with c show ?thesis by simp
qed

lemma wipe_docHello:
  "wipeDocument stubEnv suzyKeypair docHello =
     Inr (docHello\<lparr>content := [],
            contentHash := ''b4oymiquy7qobjgx36tejs35zeqt24qpemsnzgtfeswmrw6csxbkq''\<rparr>)"
proof -
  have r: "removeExtraFields (JObj (toObject docHello)) = Inr (toObject docHello, [])"
    by (simp add: removeExtraFields_def isPlainObject_def toObject_def validKeys_def docHello_def)
  have a: "asDocEs4 (toObject docHello) = docHello"
    using asDocEs4_core [of docHello] by (simp add: docHello_def)
  have b: "checkBasicDocumentValidity stubEnv
       (docHello\<lparr>content := [], contentHash := stubHash [], signature := ''?''\<rparr>
          \<lparr>signature := fakeSignature\<rparr>) = None"
    by (simp add: schema_defs schema_consts stubEnv_def doc_defs stubHash_def fakeSignature_def)
  have "signDocument stubEnv suzyKeypair
       (docHello\<lparr>content := [], contentHash := stubHash [], signature := ''?''\<rparr>) =
       Inr (docHello\<lparr>content := [], contentHash := stubHash [], signature := stubSignature\<rparr>)"
    using b by (simp add: signDocument_def hashDocument_def stubEnv_sel)
  then show ?thesis
    using r a by (simp add: wipeDocument_def stubEnv_sel) (simp add: docHello_def stubHash_def)
qed

theorem wipeDocument_keeps_timestamp_witness:
  "content docHello \<noteq> [] \<and>
   wipeDocument stubEnv suzyKeypair docHello =
     Inr (docHello\<lparr>content := [],
            contentHash := ''b4oymiquy7qobjgx36tejs35zeqt24qpemsnzgtfeswmrw6csxbkq''\<rparr>) \<and>
   timestamp (docHello\<lparr>content := [],
            contentHash := ''b4oymiquy7qobjgx36tejs35zeqt24qpemsnzgtfeswmrw6csxbkq''\<rparr>) =
     timestamp docHello \<and>
   timestamp docHello = 1700000000000000"
proof -
  have wf: "\<forall>k \<in> fst ` set (extraFields docHello). k \<notin> set validKeys"
    by (simp add: docHello_def)
  from wipeDocument_keeps_timestamp [OF wf wipe_docHello] wipe_docHello
  show ?thesis by (simp add: docHello_def)
qed

text \<open>
  C3. \<open>checkDocumentIsValid\<close> returns the error of the first failing check in the
  order basic schema check, timestamp check, author-can-write check, path-shape check,
  author address check, share address check, signature verification, content hash
  verification, and \<^verbatim>\<open>true\<close> (\<open>None\<close>) when none fails; with \<^verbatim>\<open>now\<close>
  omitted the clock supplies it.
\<close>

theorem checkDocumentIsValid_order:
  "checkDocumentIsValid env doc (Some now) = firstFailure (subChecks env doc now) \<and>
   checkDocumentIsValid env doc None = firstFailure (subChecks env doc (Date_now env * 1000))"
  by (simp add: checkDocumentIsValid_def subChecks_def split: option.splits)

lemma basic_docOwned: "checkBasicDocumentValidity stubEnv docOwned = None"
  by (simp add: schema_defs schema_consts stubEnv_def doc_defs docOwned_def)

theorem checkDocumentIsValid_order_witness:
  "checkDocumentIsValid stubEnv docOwned (Some nowHello) =
     firstFailure (subChecks stubEnv docOwned nowHello) \<and>
   firstFailure (subChecks stubEnv docOwned nowHello) =
     Some (ValidationError (''author '' @ suzy @ '' can't write to path '' @ path docOwned))"
proof -
  have "checkTimestampIsOk (timestamp docOwned) (deleteAfter docOwned) nowHello = None"
    by (simp add: check_defs doc_defs docOwned_def nowHello_def)
  moreover have "checkAuthorCanWriteToPath (author docOwned) (path docOwned) =
      Some (ValidationError (''author '' @ suzy @ '' can't write to path '' @ path docOwned))"
    by (simp add: check_defs doc_defs docOwned_def)
  ultimately have "firstFailure (subChecks stubEnv docOwned nowHello) =
      Some (ValidationError (''author '' @ suzy @ '' can't write to path '' @ path docOwned))"
    using basic_docOwned by (simp add: subChecks_def)
  then show ?thesis
    using checkDocumentIsValid_order [of stubEnv docOwned nowHello] by simp
qed

text \<open>
  C4. \<open>checkDocumentIsValid\<close> accepts a document only if its timestamp lies in the
  half-open interval from \<open>10^13\<close> (included) to \<open>2^53 - 2\<close> (excluded) and is
  at most \<open>6 * 10^8\<close> microseconds (ten minutes) beyond \<open>now\<close>; a timestamp
  outside the interval or beyond the cutoff yields a ValidationError. The cutoff is the
  one of \<^verbatim>\<open>_checkTimestampIsOk\<close>; the interval is the one the schema check takes
  from the specification.
\<close>

theorem timestamp_accepted_range:
  "(checkDocumentIsValid env doc (Some now) = None \<longrightarrow>
      10 ^ 13 \<le> timestamp doc \<and> timestamp doc < 2 ^ 53 - 2 \<and>
      timestamp doc \<le> now + 6 * 10 ^ 8)
   \<and> (timestamp doc < 10 ^ 13 \<or> 2 ^ 53 - 2 \<le> timestamp doc \<or> now + 6 * 10 ^ 8 < timestamp doc \<longrightarrow>
        isValidationError (checkDocumentIsValid env doc (Some now)))"
proof (rule conjI; rule impI)
  assume ok: "checkDocumentIsValid env doc (Some now) = None"
  from valid_imp_first_four [OF ok] basic_timestamp_range timestamp_cutoff
  show "10 ^ 13 \<le> timestamp doc \<and> timestamp doc < 2 ^ 53 - 2 \<and> timestamp doc \<le> now + 6 * 10 ^ 8"
    by blast
next
  assume out: "timestamp doc < 10 ^ 13 \<or> 2 ^ 53 - 2 \<le> timestamp doc \<or> now + 6 * 10 ^ 8 < timestamp doc"
  show "isValidationError (checkDocumentIsValid env doc (Some now))"
  proof (cases "checkBasicDocumentValidity env doc = None")
    case False
    then show ?thesis
      by (simp add: valid_basic_error basic_isValidationError)
  next
    case True
    with basic_timestamp_range [OF True] out
    have late: "now + 6 * 10 ^ 8 < timestamp doc" by linarith
    have "checkTimestampIsOk (timestamp doc) (deleteAfter doc) now \<noteq> None"
      using timestamp_cutoff [of "timestamp doc" "deleteAfter doc" now] late by auto
    with True show ?thesis
      by (simp add: valid_timestamp_error timestamp_isValidationError)
  qed
qed

lemma basic_docAtCutoff: "checkBasicDocumentValidity stubEnv docAtCutoff = None"
  by (simp add: schema_defs schema_consts stubEnv_def doc_defs docAtCutoff_def)

lemma valid_docAtCutoff: "checkDocumentIsValid stubEnv docAtCutoff (Some nowHello) = None"
  by (rule stub_valid [OF basic_docAtCutoff])
     (simp_all add: check_defs doc_defs docAtCutoff_def nowHello_def stubHash_def)

lemma basic_docBelowMax: "checkBasicDocumentValidity stubEnv docBelowMax = None"
  by (simp add: schema_defs schema_consts stubEnv_def doc_defs docBelowMax_def)

lemma valid_docBelowMax:
  "checkDocumentIsValid stubEnv docBelowMax (Some 9007199254740989) = None"
  by (rule stub_valid [OF basic_docBelowMax])
     (simp_all add: check_defs doc_defs docBelowMax_def stubHash_def)

theorem timestamp_accepted_range_witness:
  "checkDocumentIsValid stubEnv docAtCutoff (Some nowHello) = None \<and>
   10 ^ 13 \<le> timestamp docAtCutoff \<and> timestamp docAtCutoff < 2 ^ 53 - 2 \<and>
   timestamp docAtCutoff = nowHello + 6 * 10 ^ 8 \<and>
   nowHello + 6 * 10 ^ 8 < timestamp docFuture \<and>
   isValidationError (checkDocumentIsValid stubEnv docFuture (Some nowHello)) \<and>
   checkDocumentIsValid stubEnv docBelowMax (Some 9007199254740989) = None \<and>
   timestamp docBelowMax = 2 ^ 53 - 3 \<and>
   timestamp docAtMax = 2 ^ 53 - 2 \<and>
   isValidationError (checkDocumentIsValid stubEnv docAtMax (Some 9007199254740990))"
proof -
  have late: "nowHello + 6 * 10 ^ 8 < timestamp docFuture"
    by (simp add: doc_defs docFuture_def nowHello_def)
  have cut: "timestamp docAtCutoff = nowHello + 6 * 10 ^ 8"
    by (simp add: doc_defs docAtCutoff_def nowHello_def)
  have below: "timestamp docBelowMax = 2 ^ 53 - 3"
    by (simp add: doc_defs docBelowMax_def)
  have top: "timestamp docAtMax = 2 ^ 53 - 2"
    by (simp add: doc_defs docAtMax_def)
  have r1: "10 ^ 13 \<le> timestamp docAtCutoff \<and> timestamp docAtCutoff < 2 ^ 53 - 2"
    using timestamp_accepted_range [of stubEnv docAtCutoff nowHello] valid_docAtCutoff by blast
  have r2: "isValidationError (checkDocumentIsValid stubEnv docFuture (Some nowHello))"
    using timestamp_accepted_range [of stubEnv docFuture nowHello] late by blast
  have r3: "isValidationError (checkDocumentIsValid stubEnv docAtMax (Some 9007199254740990))"
    using timestamp_accepted_range [of stubEnv docAtMax 9007199254740990] top by simp
  from r1 r2 r3 late cut below top valid_docAtCutoff valid_docBelowMax show ?thesis
    by blast
qed

text \<open>
  C5. A document that \<open>checkDocumentIsValid\<close> accepts has a non-null
  \<open>deleteAfter\<close> exactly when its path contains \<open>!\<close>. A document that passes the
  three checks before the path-shape check and breaks this rule, in either direction, is
  rejected by the path-shape check with a ValidationError, which is the result of
  \<open>checkDocumentIsValid\<close>.
\<close>

theorem ephemeral_iff_bang:
  "(checkDocumentIsValid env doc (Some now) = None \<longrightarrow>
      (deleteAfter doc \<noteq> None \<longleftrightarrow> CHR ''!'' \<in> set (path doc)))
   \<and> (checkBasicDocumentValidity env doc = None \<and>
        checkTimestampIsOk (timestamp doc) (deleteAfter doc) now = None \<and>
        checkAuthorCanWriteToPath (author doc) (path doc) = None \<and>
        (deleteAfter doc \<noteq> None) \<noteq> (CHR ''!'' \<in> set (path doc)) \<longrightarrow>
          isValidationError (checkPathIsValid (path doc) (Some (deleteAfter doc))) \<and>
          checkDocumentIsValid env doc (Some now) =
            checkPathIsValid (path doc) (Some (deleteAfter doc)))"
proof (rule conjI; rule impI)
  assume "checkDocumentIsValid env doc (Some now) = None"
  then have "checkPathIsValid (path doc) (Some (deleteAfter doc)) = None"
    by (simp add: valid_imp_first_four)
  then show "deleteAfter doc \<noteq> None \<longleftrightarrow> CHR ''!'' \<in> set (path doc)"
    by (rule pathValid_ephemeral)
next
  assume a: "checkBasicDocumentValidity env doc = None \<and>
        checkTimestampIsOk (timestamp doc) (deleteAfter doc) now = None \<and>
        checkAuthorCanWriteToPath (author doc) (path doc) = None \<and>
        (deleteAfter doc \<noteq> None) \<noteq> (CHR ''!'' \<in> set (path doc))"
  then have bad: "checkPathIsValid (path doc) (Some (deleteAfter doc)) \<noteq> None"
    using pathValid_ephemeral [of "path doc" "deleteAfter doc"] by blast
  from a bad show "isValidationError (checkPathIsValid (path doc) (Some (deleteAfter doc))) \<and>
          checkDocumentIsValid env doc (Some now) =
            checkPathIsValid (path doc) (Some (deleteAfter doc))"
    by (simp add: pathValid_isValidationError valid_path_error)
qed

lemma basic_docEphemeral: "checkBasicDocumentValidity stubEnv docEphemeral = None"
  by (simp add: schema_defs schema_consts stubEnv_def doc_defs docEphemeral_def)

lemma valid_docEphemeral: "checkDocumentIsValid stubEnv docEphemeral (Some nowHello) = None"
  by (rule stub_valid [OF basic_docEphemeral])
     (simp_all add: check_defs doc_defs docEphemeral_def nowHello_def stubHash_def)

lemma basic_docSetNoBang: "checkBasicDocumentValidity stubEnv docSetNoBang = None"
  by (simp add: schema_defs schema_consts stubEnv_def doc_defs docSetNoBang_def)

lemma basic_docBangNull: "checkBasicDocumentValidity stubEnv docBangNull = None"
  by (simp add: schema_defs schema_consts stubEnv_def doc_defs docBangNull_def)

theorem ephemeral_iff_bang_witness:
  "checkDocumentIsValid stubEnv docEphemeral (Some nowHello) = None \<and>
   deleteAfter docEphemeral \<noteq> None \<and> CHR ''!'' \<in> set (path docEphemeral) \<and>
   deleteAfter docSetNoBang \<noteq> None \<and> CHR ''!'' \<notin> set (path docSetNoBang) \<and>
   isValidationError (checkDocumentIsValid stubEnv docSetNoBang (Some nowHello)) \<and>
   deleteAfter docBangNull = None \<and> CHR ''!'' \<in> set (path docBangNull) \<and>
   isValidationError (checkDocumentIsValid stubEnv docBangNull (Some nowHello))"
proof -
  have e: "deleteAfter docEphemeral \<noteq> None \<and> CHR ''!'' \<in> set (path docEphemeral)"
    by (simp add: doc_defs docEphemeral_def docSetNoBang_def docBangNull_def)
  have s: "checkTimestampIsOk (timestamp docSetNoBang) (deleteAfter docSetNoBang) nowHello = None \<and>
        checkAuthorCanWriteToPath (author docSetNoBang) (path docSetNoBang) = None \<and>
        deleteAfter docSetNoBang \<noteq> None \<and> CHR ''!'' \<notin> set (path docSetNoBang)"
    by (simp add: check_defs doc_defs docEphemeral_def docSetNoBang_def docBangNull_def nowHello_def)
  have b: "checkTimestampIsOk (timestamp docBangNull) (deleteAfter docBangNull) nowHello = None \<and>
        checkAuthorCanWriteToPath (author docBangNull) (path docBangNull) = None \<and>
        deleteAfter docBangNull = None \<and> CHR ''!'' \<in> set (path docBangNull)"
    by (simp add: check_defs doc_defs docEphemeral_def docSetNoBang_def docBangNull_def nowHello_def)
  have r1: "isValidationError (checkDocumentIsValid stubEnv docSetNoBang (Some nowHello))"
    using ephemeral_iff_bang [of stubEnv docSetNoBang nowHello] basic_docSetNoBang s
    by auto
  have r2: "isValidationError (checkDocumentIsValid stubEnv docBangNull (Some nowHello))"
    using ephemeral_iff_bang [of stubEnv docBangNull nowHello] basic_docBangNull b
    by auto
  have r3: "deleteAfter docEphemeral \<noteq> None \<longleftrightarrow> CHR ''!'' \<in> set (path docEphemeral)"
    using ephemeral_iff_bang [of stubEnv docEphemeral nowHello] valid_docEphemeral
    by blast
  from r1 r2 r3 e s b valid_docEphemeral show ?thesis
    by blast
qed

text \<open>
  C6. If the path contains \<open>~\<close> but not the substring \<open>~\<close> followed by the author
  address, the author-can-write check returns a ValidationError, and so does
  \<open>checkDocumentIsValid\<close> for a document with that author and path, whatever
  \<^verbatim>\<open>now\<close> is; a path with no \<open>~\<close> passes the author-can-write check for every
  author.
\<close>

theorem tilde_path_write_permission:
  "(CHR ''~'' \<in> set pth \<and> \<not> sublist (''~'' @ auth) pth \<longrightarrow>
      isValidationError (checkAuthorCanWriteToPath auth pth))
   \<and> (CHR ''~'' \<in> set (path doc) \<and> \<not> sublist (''~'' @ author doc) (path doc) \<longrightarrow>
        isValidationError (checkDocumentIsValid env doc nowArg))
   \<and> (CHR ''~'' \<notin> set pth \<longrightarrow> checkAuthorCanWriteToPath auth pth = None)"
proof (intro conjI impI)
  assume "CHR ''~'' \<in> set pth \<and> \<not> sublist (''~'' @ auth) pth"
  then have "checkAuthorCanWriteToPath auth pth \<noteq> None"
    by (simp add: canWrite_eq)
  then show "isValidationError (checkAuthorCanWriteToPath auth pth)"
    by (rule canWrite_isValidationError)
next
  assume "CHR ''~'' \<in> set (path doc) \<and> \<not> sublist (''~'' @ author doc) (path doc)"
  then have "checkAuthorCanWriteToPath (author doc) (path doc) \<noteq> None"
    by (simp add: canWrite_eq)
  then show "isValidationError (checkDocumentIsValid env doc nowArg)"
    by (rule valid_canWrite_error)
next
  assume "CHR ''~'' \<notin> set pth"
  then show "checkAuthorCanWriteToPath auth pth = None"
    by (simp add: canWrite_eq)
qed

theorem tilde_path_write_permission_witness:
  "CHR ''~'' \<in> set (path docOwned) \<and> \<not> sublist (''~'' @ suzy) (path docOwned) \<and>
   isValidationError (checkAuthorCanWriteToPath suzy (path docOwned)) \<and>
   isValidationError (checkDocumentIsValid stubEnv docOwned (Some nowHello)) \<and>
   checkAuthorCanWriteToPath fred (path docOwned) = None \<and>
   CHR ''~'' \<notin> set (path docHello) \<and> checkAuthorCanWriteToPath fred (path docHello) = None"
proof -
  have "indexOf (path docOwned) (''~'' @ suzy) = - 1"
    by (simp add: doc_defs docOwned_def indexOf_def)
  then have n: "\<not> sublist (''~'' @ suzy) (path docOwned)"
    by (simp add: indexOf_absent)
  have t: "CHR ''~'' \<in> set (path docOwned) \<and> CHR ''~'' \<notin> set (path docHello)"
    by (simp add: doc_defs docOwned_def)
  have f: "checkAuthorCanWriteToPath fred (path docOwned) = None"
    by (simp add: doc_defs docOwned_def check_defs)
  have a: "author docOwned = suzy"
    by (simp add: doc_defs docOwned_def)
  show ?thesis
    using tilde_path_write_permission [of "path docOwned" suzy docOwned stubEnv "Some nowHello"]
      tilde_path_write_permission [of "path docHello" fred docHello stubEnv "Some nowHello"]
      n t f a
    by simp
qed

text \<open>
  C7, as amended. For an object whose property names outside the schema all begin with an
  underscore, \<open>removeExtraFields\<close> returns the document made of exactly the
  object's schema properties, which therefore has no property outside the schema, and an
  \<open>extras\<close> object made of exactly the other properties. For an object with a
  property outside the schema whose name does not begin with an underscore it returns a
  ValidationError instead, and so it does for a value that is not a plain object.
\<close>

theorem removeExtraFields_result:
  "(distinct (map fst entries) \<longrightarrow>
      removeExtraFields (JObj entries) =
        (if list_all (\<lambda>(k, v). k \<in> set validKeys \<or> startsWith k ''_'') entries
         then Inr (filter (\<lambda>(k, v). k \<in> set validKeys) entries,
                   filter (\<lambda>(k, v). k \<notin> set validKeys) entries)
         else Inl (ValidationError
                ''extra document fields must have names starting with an underscore'')))
   \<and> (\<not> isPlainObject x \<longrightarrow>
        removeExtraFields x = Inl (ValidationError ''doc is not a plain javascript object''))"
proof (rule conjI; rule impI)
  assume d: "distinct (map fst entries)"
  show "removeExtraFields (JObj entries) =
        (if list_all (\<lambda>(k, v). k \<in> set validKeys \<or> startsWith k ''_'') entries
         then Inr (filter (\<lambda>(k, v). k \<in> set validKeys) entries,
                   filter (\<lambda>(k, v). k \<notin> set validKeys) entries)
         else Inl (ValidationError
                ''extra document fields must have names starting with an underscore''))"
  proof (cases "list_all (\<lambda>(k, v). k \<in> set validKeys \<or> startsWith k ''_'') entries")
    case True
    then show ?thesis
      using removeExtraFieldsLoop_ok [OF True d, of "[]" "[]"]
      by (simp add: removeExtraFields_def isPlainObject_def)
  next
    case False
    then show ?thesis
      using removeExtraFieldsLoop_err [OF False, of "[]" "[]"]
      by (simp add: removeExtraFields_def isPlainObject_def)
  qed
next
  assume "\<not> isPlainObject x"
  then show "removeExtraFields x = Inl (ValidationError ''doc is not a plain javascript object'')"
    by (simp add: removeExtraFields_def)
qed

theorem removeExtraFields_result_witness:
  "removeExtraFields objUnderscore =
     Inr ([(''format'', JStr ''es.4''), (''path'', JStr ''/wiki/hello'')], [(''_localIndex'', JNum 7)]) \<and>
   removeExtraFields (JStr ''es.4'') = Inl (ValidationError ''doc is not a plain javascript object'')"
  using removeExtraFields_result
    [of "[(''format'', JStr ''es.4''), (''_localIndex'', JNum 7), (''path'', JStr ''/wiki/hello'')]"
        "JStr ''es.4''"]
  by (simp add: objUnderscore_def validKeys_def startsWith_def isPlainObject_def)

text \<open>
  The claim as stated promises a document and extras for every input object. The object
  \<open>{format: "es.4", color: "red"}\<close> gets a ValidationError.
\<close>

theorem removeExtraFields_stray_counterexample:
  "removeExtraFields objStray =
     Inl (ValidationError ''extra document fields must have names starting with an underscore'')"
  by (simp add: objStray_def removeExtraFields_def isPlainObject_def validKeys_def startsWith_def)

text \<open>
  C10. Two es.4 documents that agree in every field except \<open>signature\<close> have the same
  \<open>hashDocument\<close> result, error or hash: the fixed fake signature replaces the
  document's own before anything reads it. Hence the document that \<open>signDocument\<close>
  returns has the hash of the document it signed.
\<close>

theorem hashDocument_ignores_signature:
  "(d2\<lparr>signature := s\<rparr> = d1\<lparr>signature := s\<rparr> \<longrightarrow> hashDocument env d2 = hashDocument env d1)
   \<and> (signDocument env keypair d1 = Inr d3 \<longrightarrow> hashDocument env d3 = hashDocument env d1)"
proof (intro conjI impI)
  assume eq: "d2\<lparr>signature := s\<rparr> = d1\<lparr>signature := s\<rparr>"
  have "hashDocument env d2 = hashDocument env (d2\<lparr>signature := s\<rparr>)"
    by (simp only: hashDocument_signature_update)
  also have "\<dots> = hashDocument env (d1\<lparr>signature := s\<rparr>)"
    by (simp only: eq)
  also have "\<dots> = hashDocument env d1"
    by (simp only: hashDocument_signature_update)
  finally show "hashDocument env d2 = hashDocument env d1" .
next
  assume "signDocument env keypair d1 = Inr d3"
  then obtain sig where "d3 = d1\<lparr>signature := sig\<rparr>"
    by (auto simp: signDocument_def split: sum.splits)
  then show "hashDocument env d3 = hashDocument env d1"
    by (simp only: hashDocument_signature_update)
qed

theorem hashDocument_ignores_signature_witness:
  "hashDocument stubEnv (docHello\<lparr>signature := ''?''\<rparr>) = hashDocument stubEnv docHello \<and>
   signDocument stubEnv suzyKeypair (docHello\<lparr>signature := ''?''\<rparr>) = Inr docHello \<and>
   hashDocument stubEnv docHello = Inr (stubHash (canonicalForm docHello))"
proof -
  have eq: "(docHello\<lparr>signature := ''?''\<rparr>)\<lparr>signature := ''?''\<rparr> = docHello\<lparr>signature := ''?''\<rparr>"
    by simp
  have same: "hashDocument stubEnv (docHello\<lparr>signature := ''?''\<rparr>) = hashDocument stubEnv docHello"
    using hashDocument_ignores_signature [of "''?''" "docHello\<lparr>signature := ''?''\<rparr>" docHello stubEnv]
    by simp
  have h: "hashDocument stubEnv docHello = Inr (stubHash (canonicalForm docHello))"
    using hashDocument_of_basic [OF basic_docHello] by (simp add: stubEnv_sel)
  have "signDocument stubEnv suzyKeypair (docHello\<lparr>signature := ''?''\<rparr>) = Inr docHello"
    by (simp add: signDocument_def same h stubEnv_sel) (simp add: docHello_def)
  with same h show ?thesis by simp
qed

section \<open>Properties of the driver\<close>

lemma objGet_objSet: "objGet (objSet obj key val) key = val"
  by (induction obj) auto

lemma withLocalIndex_index:
  "asNumber (objGet (extraFields (withLocalIndex doc i)) ''_localIndex'') = i"
  by (simp add: withLocalIndex_def objGet_objSet)

lemmas method_defs = setConfig_def getConfig_def listConfigKeys_def deleteConfig_def
  getMaxLocalIndex_def queryDocs_def queryDocsSync_def upsert_def upsertSync_def
  eraseExpiredDocs_def close_def

lemma upsert_result:
  "upsert this doc = Inr (stored, this') \<Longrightarrow>
     stored = withLocalIndex doc (priv_maxLocalIndex this + 1) \<and>
     priv_maxLocalIndex this' = priv_maxLocalIndex this + 1 \<and>
     docs_table (priv_db this') =
       filter (\<lambda>r. row_pathAuthor r \<noteq> path doc @ '' '' @ author doc \<and>
                   row_localIndex r \<noteq> priv_maxLocalIndex this + 1)
         (docs_table (priv_db this)) @
       [\<lparr>row_doc = doc, row_localIndex = priv_maxLocalIndex this + 1,
         row_pathAuthor = path doc @ '' '' @ author doc\<rparr>]"
  by (auto simp: upsert_def upsertSync_def Let_def UPSERT_DOC_QUERY_def split: if_splits)

lemma call_closed: "priv_isClosed this \<Longrightarrow> call engine this c = Inl ReplicaIsClosedError"
  by (cases c) (simp_all add: method_defs returning_def)

lemma call_maxLocalIndex:
  assumes "call engine this c = Inr (v, this')"
  shows "(case c of
            CallUpsert doc \<Rightarrow>
              v = RetDoc (withLocalIndex doc (priv_maxLocalIndex this + 1)) \<and>
              priv_maxLocalIndex this' = priv_maxLocalIndex this + 1
          | _ \<Rightarrow> priv_maxLocalIndex this' = priv_maxLocalIndex this \<and> (\<forall>d. v \<noteq> RetDoc d))"
proof (cases c)
  case (CallUpsert doc)
  with assms obtain stored where "upsert this doc = Inr (stored, this')" "v = RetDoc stored"
    by (auto simp: returning_def split: sum.splits)
  with upsert_result [of this doc stored this'] CallUpsert show ?thesis by simp
qed (use assms in \<open>auto simp: method_defs returning_def Let_def split: if_splits prod.splits\<close>)

lemma calls_indexes:
  "calls engine this cs = (rs, final) \<Longrightarrow>
     priv_maxLocalIndex this \<le> priv_maxLocalIndex final \<and>
     sorted_wrt (<) (assignedLocalIndexes rs) \<and>
     (\<forall>i \<in> set (assignedLocalIndexes rs).
        priv_maxLocalIndex this < i \<and> i \<le> priv_maxLocalIndex final)"
proof (induction cs arbitrary: this rs)
  case Nil
  then show ?case by simp
next
  case (Cons c cs)
  show ?case
  proof (cases "call engine this c")
    case (Inl err)
    obtain rs' where rest: "calls engine this cs = (rs', final)" and rs: "rs = Inl err # rs'"
      using Cons.prems Inl by (auto split: prod.splits)
    from Cons.IH [OF rest] rs show ?thesis by simp
  next
    case (Inr p)
    obtain v this1 where p: "p = (v, this1)" by (cases p)
    obtain rs' where rest: "calls engine this1 cs = (rs', final)" and rs: "rs = Inr v # rs'"
      using Cons.prems Inr p by (auto split: prod.splits)
    note ih = Cons.IH [OF rest]
    show ?thesis
    proof (cases "\<exists>doc. c = CallUpsert doc")
      case True
      then obtain doc where c: "c = CallUpsert doc" by blast
      from call_maxLocalIndex [of engine this c v this1] Inr p c
      have v: "v = RetDoc (withLocalIndex doc (priv_maxLocalIndex this + 1))"
        and m: "priv_maxLocalIndex this1 = priv_maxLocalIndex this + 1" by simp_all
      have "assignedLocalIndexes rs = (priv_maxLocalIndex this + 1) # assignedLocalIndexes rs'"
        using rs v by (simp add: withLocalIndex_index)
      with ih m show ?thesis by auto
    next
      case False
      from call_maxLocalIndex [of engine this c v this1] Inr p False
      have m: "priv_maxLocalIndex this1 = priv_maxLocalIndex this" and nd: "\<forall>d. v \<noteq> RetDoc d"
        by (cases c; simp)+
      have "assignedLocalIndexes rs = assignedLocalIndexes rs'"
        using rs nd by (cases v) simp_all
      with ih m show ?thesis by simp
    qed
  qed
qed

lemma initialMaxLocalIndex_empty: "docs_table d = [] \<Longrightarrow> initialMaxLocalIndex d = - 1"
  by (simp add: initialMaxLocalIndex_def MAX_LOCAL_INDEX_QUERY_def)

lemma calls_closed:
  "priv_isClosed this \<Longrightarrow>
     calls engine this cs = (map (\<lambda>c. Inl ReplicaIsClosedError) cs, this)"
  by (induction cs) (simp_all add: call_closed)

lemma close_closes: "close this erase = Inr (u, this') \<Longrightarrow> priv_isClosed this'"
  by (auto simp: close_def Let_def split: if_splits)

section \<open>The claims about the driver\<close>

text \<open>
  C8, as amended. A successful \<open>upsert\<close> returns the document with
  \<^verbatim>\<open>_localIndex\<close> equal to the driver's \<^verbatim>\<open>_maxLocalIndex\<close> plus one,
  stores a row with that local index and increments \<^verbatim>\<open>_maxLocalIndex\<close>. In any
  sequence of calls on one driver the local indexes that the successful upserts assign are
  strictly increasing and greater than the maximum the sequence started from. On a driver
  whose \<^verbatim>\<open>_maxLocalIndex\<close> is the value the constructor read from a store with
  no documents, \<open>getMaxLocalIndex\<close> returns \<open>-1\<close>.
\<close>

theorem upsert_localIndex_serial:
  "(upsert this doc = Inr (stored, this') \<longrightarrow>
      objGet (extraFields stored) ''_localIndex'' = JNum (priv_maxLocalIndex this + 1) \<and>
      priv_maxLocalIndex this' = priv_maxLocalIndex this + 1 \<and>
      \<lparr>row_doc = doc, row_localIndex = priv_maxLocalIndex this + 1,
       row_pathAuthor = path doc @ '' '' @ author doc\<rparr> \<in> set (docs_table (priv_db this')))
   \<and> (calls engine this cs = (rs, final) \<longrightarrow>
        sorted_wrt (<) (assignedLocalIndexes rs) \<and>
        (\<forall>i \<in> set (assignedLocalIndexes rs). priv_maxLocalIndex this < i))
   \<and> (\<not> priv_isClosed this \<and> docs_table (priv_db this) = [] \<and>
        priv_maxLocalIndex this = initialMaxLocalIndex (priv_db this) \<longrightarrow>
          getMaxLocalIndex this = Inr (- 1, this))"
proof (intro conjI impI)
  assume u: "upsert this doc = Inr (stored, this')"
  from upsert_result [OF u]
  show "objGet (extraFields stored) ''_localIndex'' = JNum (priv_maxLocalIndex this + 1)"
    by (simp add: withLocalIndex_def objGet_objSet)
  from upsert_result [OF u]
  show "priv_maxLocalIndex this' = priv_maxLocalIndex this + 1" by simp
  from upsert_result [OF u]
  show "\<lparr>row_doc = doc, row_localIndex = priv_maxLocalIndex this + 1,
       row_pathAuthor = path doc @ '' '' @ author doc\<rparr> \<in> set (docs_table (priv_db this'))"
    by simp
next
  assume c: "calls engine this cs = (rs, final)"
  from calls_indexes [OF c] show "sorted_wrt (<) (assignedLocalIndexes rs)" by simp
  from calls_indexes [OF c]
  show "\<forall>i \<in> set (assignedLocalIndexes rs). priv_maxLocalIndex this < i" by simp
next
  assume "\<not> priv_isClosed this \<and> docs_table (priv_db this) = [] \<and>
        priv_maxLocalIndex this = initialMaxLocalIndex (priv_db this)"
  then show "getMaxLocalIndex this = Inr (- 1, this)"
    by (simp add: getMaxLocalIndex_def initialMaxLocalIndex_empty)
qed

lemma upsert_first:
  "upsert emptyMemoryDriver docHello =
     Inr (withLocalIndex docHello 0,
          emptyMemoryDriver
            \<lparr>priv_maxLocalIndex := 0,
             priv_db := (priv_db emptyMemoryDriver)
               \<lparr>docs_table := [\<lparr>row_doc = docHello, row_localIndex = 0,
                                row_pathAuthor = path docHello @ '' '' @ author docHello\<rparr>]\<rparr>\<rparr>)"
  by (simp add: upsert_def upsertSync_def UPSERT_DOC_QUERY_def emptyMemoryDriver_def)

lemma run_two_upserts:
  "assignedLocalIndexes
     (fst (calls noQueryEngine emptyMemoryDriver
        [CallUpsert docHello, CallSetConfig ''k'' ''v'', CallUpsert docEphemeral,
         CallClose False, CallUpsert docHello])) = [0, 1]"
  by (simp add: method_defs returning_def UPSERT_DOC_QUERY_def UPSERT_CONFIG_QUERY_def
      emptyMemoryDriver_def withLocalIndex_def Let_def doc_defs docEphemeral_def)

theorem upsert_localIndex_serial_witness:
  "upsert emptyMemoryDriver docHello =
     Inr (withLocalIndex docHello 0,
          emptyMemoryDriver
            \<lparr>priv_maxLocalIndex := 0,
             priv_db := (priv_db emptyMemoryDriver)
               \<lparr>docs_table := [\<lparr>row_doc = docHello, row_localIndex = 0,
                                row_pathAuthor = path docHello @ '' '' @ author docHello\<rparr>]\<rparr>\<rparr>) \<and>
   objGet (extraFields (withLocalIndex docHello 0)) ''_localIndex'' = JNum 0 \<and>
   assignedLocalIndexes
     (fst (calls noQueryEngine emptyMemoryDriver
        [CallUpsert docHello, CallSetConfig ''k'' ''v'', CallUpsert docEphemeral,
         CallClose False, CallUpsert docHello])) = [0, 1] \<and>
   sorted_wrt (<) [0, 1 :: int] \<and>
   docs_table (priv_db emptyMemoryDriver) = [] \<and>
   getMaxLocalIndex emptyMemoryDriver = Inr (- 1, emptyMemoryDriver)"
proof -
  have e: "\<not> priv_isClosed emptyMemoryDriver \<and> docs_table (priv_db emptyMemoryDriver) = [] \<and>
      priv_maxLocalIndex emptyMemoryDriver = initialMaxLocalIndex (priv_db emptyMemoryDriver)"
    by (simp add: emptyMemoryDriver_def initialMaxLocalIndex_def MAX_LOCAL_INDEX_QUERY_def)
  have m: "priv_maxLocalIndex emptyMemoryDriver = - 1"
    by (simp add: emptyMemoryDriver_def)
  have g: "getMaxLocalIndex emptyMemoryDriver = Inr (- 1, emptyMemoryDriver)"
    using upsert_localIndex_serial [THEN conjunct2, THEN conjunct2, THEN mp, OF e] .
  have i: "objGet (extraFields (withLocalIndex docHello 0)) ''_localIndex'' = JNum 0"
    using upsert_localIndex_serial [THEN conjunct1, THEN mp, OF upsert_first] m by simp
  show ?thesis
    using upsert_first run_two_upserts g i e by simp
qed

text \<open>
  The claim as stated gives \<open>-1\<close> for every empty store. A store that is empty
  because its only document expired and was erased answers with the index it assigned:
  \<open>eraseExpiredDocs\<close> does not touch \<^verbatim>\<open>_maxLocalIndex\<close>.
\<close>

theorem maxLocalIndex_after_erase_counterexample:
  "calls noQueryEngine emptyMemoryDriver
     [CallUpsert docEphemeral, CallEraseExpiredDocs 1700000700000000, CallGetMaxLocalIndex] =
     ([Inr (RetDoc (withLocalIndex docEphemeral 0)), Inr (RetDocs [docEphemeral]),
       Inr (RetNumber 0)], emptiedDriver) \<and>
   docs_table (priv_db emptiedDriver) = []"
  by (simp add: method_defs returning_def UPSERT_DOC_QUERY_def SELECT_EXPIRED_DOC_QUERY_def
      DELETE_EXPIRED_DOC_QUERY_def isExpiredRow_def emptyMemoryDriver_def
      emptiedDriver_def noQueryEngine_def docEphemeral_def)

text \<open>
  C9. A successful \<open>close\<close> leaves the driver closed. On a closed driver each of
  \<open>setConfig\<close>, \<open>getConfig\<close>, \<open>listConfigKeys\<close>, \<open>deleteConfig\<close>,
  \<open>getMaxLocalIndex\<close>, \<open>queryDocs\<close>, \<open>upsert\<close>, \<open>eraseExpiredDocs\<close>
  and a further \<open>close\<close> throws ReplicaIsClosedError, and after any sequence of such
  calls the driver is unchanged, hence still closed.
\<close>

theorem closed_driver_rejects:
  "(close this erase = Inr (u, this') \<longrightarrow> isClosed this')
   \<and> (isClosed this \<longrightarrow>
        setConfig this key cont = Inl ReplicaIsClosedError \<and>
        getConfig this key = Inl ReplicaIsClosedError \<and>
        listConfigKeys this = Inl ReplicaIsClosedError \<and>
        deleteConfig this key = Inl ReplicaIsClosedError \<and>
        getMaxLocalIndex this = Inl ReplicaIsClosedError \<and>
        queryDocs engine this query now = Inl ReplicaIsClosedError \<and>
        upsert this doc = Inl ReplicaIsClosedError \<and>
        eraseExpiredDocs this now = Inl ReplicaIsClosedError \<and>
        close this erase = Inl ReplicaIsClosedError \<and>
        calls engine this cs = (map (\<lambda>c. Inl ReplicaIsClosedError) cs, this))"
proof (rule conjI; rule impI)
  assume "close this erase = Inr (u, this')"
  then show "isClosed this'"
    by (simp add: isClosed_def close_closes)
next
  assume "isClosed this"
  then have c: "priv_isClosed this" by (simp add: isClosed_def)
  from c calls_closed [OF c, of engine cs]
  show "setConfig this key cont = Inl ReplicaIsClosedError \<and>
        getConfig this key = Inl ReplicaIsClosedError \<and>
        listConfigKeys this = Inl ReplicaIsClosedError \<and>
        deleteConfig this key = Inl ReplicaIsClosedError \<and>
        getMaxLocalIndex this = Inl ReplicaIsClosedError \<and>
        queryDocs engine this query now = Inl ReplicaIsClosedError \<and>
        upsert this doc = Inl ReplicaIsClosedError \<and>
        eraseExpiredDocs this now = Inl ReplicaIsClosedError \<and>
        close this erase = Inl ReplicaIsClosedError \<and>
        calls engine this cs = (map (\<lambda>c. Inl ReplicaIsClosedError) cs, this)"
    by (simp add: method_defs)
qed

theorem closed_driver_rejects_witness:
  "close emptyMemoryDriver True = Inr ((), closedMemoryDriver) \<and>
   isClosed closedMemoryDriver \<and>
   upsert closedMemoryDriver docHello = Inl ReplicaIsClosedError \<and>
   getMaxLocalIndex closedMemoryDriver = Inl ReplicaIsClosedError \<and>
   close closedMemoryDriver False = Inl ReplicaIsClosedError \<and>
   calls noQueryEngine closedMemoryDriver [CallClose True, CallGetConfig ''share''] =
     ([Inl ReplicaIsClosedError, Inl ReplicaIsClosedError], closedMemoryDriver)"
proof -
  have c: "close emptyMemoryDriver True = Inr ((), closedMemoryDriver)"
    by (simp add: close_def emptyMemoryDriver_def closedMemoryDriver_def)
  have i: "isClosed closedMemoryDriver"
    using closed_driver_rejects [of emptyMemoryDriver True "()" closedMemoryDriver] c by simp
  from closed_driver_rejects
    [of closedMemoryDriver False "()" closedMemoryDriver "''share''" "''x''" noQueryEngine "()" 0
        docHello "[CallClose True, CallGetConfig ''share'']"] i
  show ?thesis using c by simp
qed

end
